theory Spec2Isabelle
  imports Complex_Main "HOL-Library.Multiset" "HOL-Library.Product_Lexorder" "HOL-Library.AList"
begin

section \<open>Event based risk: a shallow embedding of event\_based\_risk.py\<close>

text \<open>
  Conventions of the embedding.
  \<^item> numpy float arrays (F32, F64) are lists of \<^typ>\<open>real\<close>: arithmetic is exact, rounding is
    not modelled, except where a float operation is a parameter: the cast of the epsilon
    matrix, and in \<open>save_results\<close> the product \<open>losses[:, i] * vs\<close> and the \<open>+=\<close> on the F32 dataset
    \<open>avg_losses-rlzs\<close>, of which nothing is assumed. Unsigned 32 bit ids are \<^typ>\<open>nat\<close>.
  \<^item> A Python exception is a value \<open>Inl e\<close> of the type \<open>error + 'a\<close>.
  \<^item> A dict that the code iterates is an association list in insertion order
    (\<^const>\<open>AList.update\<close> replaces in place or appends), a dict that is only looked up is a map.
  \<^item> Calls into modules outside the two source files (the risk model, the curve builders,
    numpy.random, the parent calculator) are parameters of the functions that make them.
\<close>

datatype error = KeyError | IndexError | ValueError | ZeroDivisionError | RuntimeError string

definition bindE :: "error + 'a \<Rightarrow> ('a \<Rightarrow> error + 'b) \<Rightarrow> error + 'b" where
  "bindE m f = (case m of Inl e \<Rightarrow> Inl e | Inr x \<Rightarrow> f x)"

text \<open>Python list indexing with a non-negative index.\<close>

definition nth_err :: "'a list \<Rightarrow> nat \<Rightarrow> error + 'a" where
  "nth_err xs i = (if i < length xs then Inr (xs ! i) else Inl IndexError)"

subsection \<open>Records of the loss tables\<close>

text \<open>
  \<open>elt_dt\<close>: \<open>(eid, loss)\<close> and \<open>ela_dt\<close>: \<open>(eid, aid, loss)\<close>, the loss being a row of
  \<open>I = insured_losses + 1\<close> floats.
\<close>

type_synonym elt_rec = "nat \<times> real list"
type_synonym ela_rec = "nat \<times> nat \<times> real list"
type_synonym lr_key = "nat \<times> nat"

text \<open>A dense array of three dimensions, as the dataset \<open>avg_losses-rlzs\<close>: shape and cells.\<close>

record dense3 =
  d_shape :: "nat \<times> nat \<times> nat"
  d_cells :: "nat \<times> nat \<times> nat \<Rightarrow> real"

text \<open>
  The part of the calculator and of its datastore that \<open>EbriskCalculator\<close> reads and writes.
  A dataset \<open>agg_loss_table/rlz-%03d/<loss_type>\<close> is keyed by the pair of the realization
  number and the loss type name; the group \<open>agg_loss_table\<close> is in the datastore when
  one of its datasets has been created.
\<close>

record calc =
  gmfbytes :: nat
  agg_loss_table :: "((nat \<times> string) \<times> elt_rec list) list"
  ass_loss_ratios :: "((nat \<times> string) \<times> ela_rec list) list"
  avg_losses_rlzs :: "dense3 option"
  num_events_attr :: "nat option"
  job_info :: "nat option"
  agg_nonzero_fraction :: "((nat \<times> string) \<times> real) list"
  ass_nonzero_fraction :: "((nat \<times> string) \<times> real) list"
  warnings :: "string list"

subsection \<open>EbriskCalculator.post\_execute\<close>

definition no_gmfs_msg :: string where
  "no_gmfs_msg = ''No GMFs were generated, perhaps they were all below the minimum_intensity threshold''"

definition no_losses_msg :: string where
  "no_losses_msg = ''No losses were generated: most likely there is an error in your input files or the GMFs were below the minimum intensity''"

text \<open>
  \<open>ds.attrs['nonzero_fraction'] = len(ds) / d\<close> for every dataset of a group; true division
  raises ZeroDivisionError at the first dataset when \<open>d = 0\<close>.
\<close>

definition nonzero_fractions ::
  "(('k \<times> 'r list) list) \<Rightarrow> nat \<Rightarrow> error + ('k \<times> real) list" where
  "nonzero_fractions tbl d =
     (if tbl \<noteq> [] \<and> d = 0 then Inl ZeroDivisionError
      else Inr (map (\<lambda>(k, ds). (k, real (length ds) / real d)) tbl))"

text \<open>
  \<open>post_execute(self, num_events)\<close>. The first statement calls the post\_execute of
  EventBasedRuptureCalculator, which is not among the source files: it is the parameter
  \<open>parent\<close>. \<open>A\<close> is \<open>len(self.assetcol)\<close>. The size accounting of \<open>set_nbytes\<close> and the
  info line of the log are not modelled.
\<close>

definition post_execute ::
  "(calc \<Rightarrow> nat \<Rightarrow> error + calc) \<Rightarrow> nat \<Rightarrow> calc \<Rightarrow> nat \<Rightarrow> error + calc" where
  "post_execute parent A c num_events =
     bindE (parent c num_events) (\<lambda>c1.
       if gmfbytes c1 = 0 then Inl (RuntimeError no_gmfs_msg)
       else
         let c2 = c1\<lparr>job_info := Some (gmfbytes c1)\<rparr> in
         bindE (if ass_loss_ratios c2 \<noteq> []
                then bindE (nonzero_fractions (ass_loss_ratios c2) (A * num_events))
                       (\<lambda>fr. Inr (c2\<lparr>ass_nonzero_fraction := fr\<rparr>))
                else Inr c2) (\<lambda>c3.
           if agg_loss_table c3 = []
           then Inr (c3\<lparr>warnings := warnings c3 @ [no_losses_msg]\<rparr>)
           else bindE (nonzero_fractions (agg_loss_table c3) num_events)
                  (\<lambda>fr. Inr (c3\<lparr>agg_nonzero_fraction := fr\<rparr>))))"

text \<open>
  A calculator right after a run in which GMFs were read but no loss was produced, and a
  parent \<open>post_execute\<close> that changes nothing.
\<close>

definition parent_ok :: "calc \<Rightarrow> nat \<Rightarrow> error + calc" where
  "parent_ok c num_events = Inr c"

definition calc_no_losses :: calc where
  "calc_no_losses =
     \<lparr>gmfbytes = 8, agg_loss_table = [], ass_loss_ratios = [], avg_losses_rlzs = None,
      num_events_attr = Some 3, job_info = None, agg_nonzero_fraction = [],
      ass_nonzero_fraction = [], warnings = []\<rparr>"

subsection \<open>\_aggregate and event\_based\_risk\<close>

text \<open>
  An asset has an ordinal and a value per loss type (\<open>asset.value(loss_type)\<close>). An output
  of \<open>riskmodel.gen_outputs\<close> carries its pair \<open>lr\<close> (loss type index, realization), its event
  ids, its assets and the array \<open>loss_ratios\<close> of shape (assets, events, I). The monitor
  carries the configuration of the run.
\<close>

record asset =
  ordinal :: nat
  avalue :: "string \<Rightarrow> real"

record out =
  out_lr :: lr_key
  out_eids :: "nat list"
  out_assets :: "asset list"
  out_loss_ratios :: "real list list list"

record monitor =
  mon_avg_losses :: bool
  mon_loss_ratios :: bool
  mon_ses_ratio :: real
  mon_insured_losses :: bool
  mon_gmfbytes :: nat

text \<open>The dictionary a task returns: \<open>agglosses\<close>, \<open>asslosses\<close>, \<open>avglosses\<close> (optional), \<open>gmfbytes\<close>.\<close>

record task_result =
  agglosses :: "(lr_key \<times> elt_rec list) list"
  asslosses :: "(lr_key \<times> ela_rec list) list"
  avglosses :: "(lr_key \<times> real list list) list option"
  res_gmfbytes :: nat

text \<open>
  The accumulators of a task: \<open>agg\<close> (AccumDict of dense (E, I) arrays), \<open>ass\<close> (AccumDict of
  lists of record arrays) and \<open>result['avglosses']\<close> (AccumDict of dense (A, I) arrays).
\<close>

record acc =
  agg :: "lr_key \<rightharpoonup> real list list"
  ass :: "(lr_key \<times> ela_rec list list) list"
  avg :: "(lr_key \<times> real list list) list"

definition I_of :: "monitor \<Rightarrow> nat" where
  "I_of mon = (if mon_insured_losses mon then 2 else 1)"

definition zeros :: "nat \<Rightarrow> nat \<Rightarrow> real list list" where
  "zeros n m = replicate n (replicate m 0)"

primrec foldE :: "('a \<Rightarrow> 's \<Rightarrow> error + 's) \<Rightarrow> 'a list \<Rightarrow> 's \<Rightarrow> error + 's" where
  "foldE f [] s = Inr s"
| "foldE f (x # xs) s = bindE (f x s) (foldE f xs)"

primrec mapE :: "('a \<Rightarrow> error + 'b) \<Rightarrow> 'a list \<Rightarrow> error + 'b list" where
  "mapE f [] = Inr []"
| "mapE f (x # xs) = bindE (f x) (\<lambda>y. bindE (mapE f xs) (\<lambda>ys. Inr (y # ys)))"

text \<open>\<open>idx = dict(zip(eids, range(E)))\<close>: a repeated event id keeps its last position.\<close>

definition idx_of :: "nat list \<Rightarrow> nat \<rightharpoonup> nat" where
  "idx_of eids = map_of (rev (zip eids [0..<length eids]))"

definition lookup_idx :: "nat list \<Rightarrow> nat \<Rightarrow> error + nat" where
  "lookup_idx eids eid = (case idx_of eids eid of None \<Rightarrow> Inl KeyError | Some j \<Rightarrow> Inr j)"

text \<open>
  A numpy array is rectangular; a list of rows stands for an array of shape (n, m) when
  \<open>shape_ok n m\<close> holds. An output whose \<open>loss_ratios[i]\<close> has another shape than
  (events, I) is outside the model (ValueError).
\<close>

definition shape_ok :: "nat \<Rightarrow> nat \<Rightarrow> real list list \<Rightarrow> bool" where
  "shape_ok n m rows = (length rows = n \<and> list_all (\<lambda>row. length row = m) rows)"

text \<open>\<open>loss_ratios.sum(axis=0)\<close> for an array of I columns.\<close>

definition colsums :: "nat \<Rightarrow> real list list \<Rightarrow> real list" where
  "colsums m rows = map (\<lambda>c. sum_list (map (\<lambda>row. row ! c) rows)) [0..<m]"

text \<open>
  \<open>agglr[indices] += losses\<close>: numpy reads \<open>agglr[indices]\<close>, adds, and assigns the sums back
  position by position, so a repeated index keeps the last sum.
\<close>

definition agg_add :: "real list list \<Rightarrow> nat list \<Rightarrow> real list list \<Rightarrow> real list list" where
  "agg_add agglr indices losses =
     fold (\<lambda>(j, row) m. m[j := map2 (+) (agglr ! j) row]) (zip indices losses) agglr"

text \<open>\<open>result['avglosses'][l, r][aid] += v\<close>, a missing key starting from zeros((A, I)).\<close>

definition avg_add ::
  "nat \<Rightarrow> nat \<Rightarrow> (lr_key \<times> real list list) list \<Rightarrow> lr_key \<Rightarrow> nat \<Rightarrow> real list
     \<Rightarrow> error + (lr_key \<times> real list list) list" where
  "avg_add A I av lr aid v =
     (let m = (case map_of av lr of None \<Rightarrow> zeros A I | Some m \<Rightarrow> m)
      in if aid < A then Inr (AList.update lr (m[aid := map2 (+) (m ! aid) v]) av)
         else Inl IndexError)"

text \<open>
  The rows of one asset:
  \<open>[(eid, aid, loss) for eid, loss in zip(out.eids, loss_ratios) if loss.sum() > 0]\<close>.
\<close>

definition asset_rows :: "nat list \<Rightarrow> nat \<Rightarrow> real list list \<Rightarrow> ela_rec list" where
  "asset_rows eids aid loss_ratios =
     map (\<lambda>(eid, loss). (eid, aid, loss)) (filter (\<lambda>(eid, loss). 0 < sum_list loss) (zip eids loss_ratios))"

text \<open>\<open>ass[l, r].append(data)\<close>, a missing key starting from the empty list.\<close>

definition ass_append ::
  "(lr_key \<times> ela_rec list list) list \<Rightarrow> lr_key \<Rightarrow> ela_rec list \<Rightarrow> (lr_key \<times> ela_rec list list) list" where
  "ass_append as lr data =
     AList.update lr ((case map_of as lr of None \<Rightarrow> [] | Some arrs \<Rightarrow> arrs) @ [data]) as"

text \<open>The body of \<open>for i, asset in enumerate(out.assets)\<close>; \<open>agglr\<close> is the array \<open>agg[l, r]\<close>.\<close>

definition asset_step ::
  "monitor \<Rightarrow> nat \<Rightarrow> out \<Rightarrow> string \<Rightarrow> nat list \<Rightarrow> nat \<times> asset \<Rightarrow> real list list \<times> acc
     \<Rightarrow> error + (real list list \<times> acc)" where
  "asset_step mon A out loss_type indices ia st =
     (case ia of (i, asset) \<Rightarrow> case st of (agglr, a) \<Rightarrow>
        bindE (nth_err (out_loss_ratios out) i) (\<lambda>loss_ratios.
          if \<not> shape_ok (length (out_eids out)) (I_of mon) loss_ratios then Inl ValueError
          else
            let aid = ordinal asset;
                losses = map (map (\<lambda>x. x * avalue asset loss_type)) loss_ratios
            in bindE (if mon_avg_losses mon
                      then avg_add A (I_of mon) (avg a) (out_lr out) aid
                             (map (\<lambda>x. x * mon_ses_ratio mon) (colsums (I_of mon) loss_ratios))
                      else Inr (avg a)) (\<lambda>av.
                 let data = asset_rows (out_eids out) aid loss_ratios;
                     as = (if mon_loss_ratios mon \<and> data \<noteq> []
                           then ass_append (ass a) (out_lr out) data else ass a)
                 in Inr (agg_add agglr indices losses, a\<lparr>ass := as, avg := av\<rparr>))))"

text \<open>The body of \<open>for out in outputs\<close>.\<close>

definition output_step ::
  "monitor \<Rightarrow> string list \<Rightarrow> nat \<Rightarrow> nat list \<Rightarrow> out \<Rightarrow> acc \<Rightarrow> error + acc" where
  "output_step mon loss_types A eids out a =
     bindE (nth_err loss_types (fst (out_lr out))) (\<lambda>loss_type.
       bindE (mapE (lookup_idx eids) (out_eids out)) (\<lambda>indices.
         let agglr = (case agg a (out_lr out) of
                        None \<Rightarrow> zeros (length eids) (I_of mon) | Some m \<Rightarrow> m)
         in bindE (foldE (asset_step mon A out loss_type indices)
                     (enumerate 0 (out_assets out)) (agglr, a)) (\<lambda>(agglr', a').
              Inr (a'\<lparr>agg := (agg a')(out_lr out \<mapsto> agglr')\<rparr>))))"

text \<open>\<open>_aggregate\<close>: the updated accumulators and \<open>sorted(lrs)\<close>.\<close>

definition aggregate ::
  "monitor \<Rightarrow> string list \<Rightarrow> nat \<Rightarrow> nat list \<Rightarrow> out list \<Rightarrow> acc \<Rightarrow> error + (lr_key list \<times> acc)" where
  "aggregate mon loss_types A eids outputs a =
     bindE (foldE (output_step mon loss_types A eids) outputs a) (\<lambda>a'.
       Inr (sort (remdups (map out_lr outputs)), a'))"

text \<open>
  \<open>[(eids[i], loss) for i, loss in enumerate(agg[lr]) if loss.sum() > 0]\<close>: the dense
  aggregate collapsed to its sparse records.
\<close>

definition agg_records :: "nat list \<Rightarrow> real list list \<Rightarrow> elt_rec list" where
  "agg_records eids dense =
     map (\<lambda>(i, loss). (eids ! i, loss)) (filter (\<lambda>(i, loss). 0 < sum_list loss) (enumerate 0 dense))"

definition dense_agg :: "monitor \<Rightarrow> nat list \<Rightarrow> acc \<Rightarrow> lr_key \<Rightarrow> real list list" where
  "dense_agg mon eids a lr =
     (case agg a lr of None \<Rightarrow> zeros (length eids) (I_of mon) | Some m \<Rightarrow> m)"

text \<open>
  \<open>event_based_risk(riskinput, riskmodel, assetcol, monitor)\<close>: \<open>eids\<close> is \<open>riskinput.eids\<close>,
  \<open>loss_types\<close> is \<open>riskmodel.loss_types\<close>, \<open>A\<close> is \<open>len(assetcol)\<close> and \<open>outputs\<close> is what
  \<open>riskmodel.gen_outputs\<close> yields.
\<close>

definition event_based_risk ::
  "monitor \<Rightarrow> string list \<Rightarrow> nat \<Rightarrow> nat list \<Rightarrow> out list \<Rightarrow> error + task_result" where
  "event_based_risk mon loss_types A eids outputs =
     bindE (aggregate mon loss_types A eids outputs \<lparr>agg = Map.empty, ass = [], avg = []\<rparr>)
       (\<lambda>(lrs, a).
          Inr \<lparr>agglosses =
                 concat (map (\<lambda>lr. let records = agg_records eids (dense_agg mon eids a lr)
                                    in if records \<noteq> [] then [(lr, records)] else []) lrs),
               asslosses =
                 concat (map (\<lambda>(lr, arrs). if arrs \<noteq> [] then [(lr, concat arrs)] else []) (ass a)),
               avglosses = (if mon_avg_losses mon then Some (avg a) else None),
               res_gmfbytes = mon_gmfbytes mon\<rparr>)"

text \<open>
  A small task: one asset of value 100, three events, loss ratios 0.1, 0 and 0.2 for the
  pair (loss type 0, realization 0); asset loss output requested.
\<close>

definition asset1 :: asset where
  "asset1 = \<lparr>ordinal = 0, avalue = (\<lambda>lt. 100)\<rparr>"

definition out1 :: out where
  "out1 = \<lparr>out_lr = (0, 0), out_eids = [0, 1, 2], out_assets = [asset1],
           out_loss_ratios = [[[1 / 10], [0], [1 / 5]]]\<rparr>"

definition mon1 :: monitor where
  "mon1 = \<lparr>mon_avg_losses = False, mon_loss_ratios = True, mon_ses_ratio = 1,
           mon_insured_losses = False, mon_gmfbytes = 24\<rparr>"

text \<open>The result of that task.\<close>

definition res1 :: task_result where
  "res1 = \<lparr>agglosses = [((0, 0), [(0, [10]), (2, [20])])],
            asslosses = [((0, 0), [(0, 0, [1 / 10]), (2, 0, [1 / 5])])],
            avglosses = None, res_gmfbytes = 24\<rparr>"

text \<open>
  The same task with insured losses (I = 2): the first event has a ground loss ratio and a
  zero insured loss ratio.
\<close>

definition out2 :: out where
  "out2 = \<lparr>out_lr = (0, 0), out_eids = [0, 1, 2], out_assets = [asset1],
           out_loss_ratios = [[[1 / 10, 0], [0, 0], [1 / 5, 1 / 20]]]\<rparr>"

definition mon2 :: monitor where
  "mon2 = \<lparr>mon_avg_losses = False, mon_loss_ratios = True, mon_ses_ratio = 1,
           mon_insured_losses = True, mon_gmfbytes = 24\<rparr>"

definition res2 :: task_result where
  "res2 = \<lparr>agglosses = [((0, 0), [(0, [10, 0]), (2, [20, 5])])],
            asslosses = [((0, 0), [(0, 0, [1 / 10, 0]), (2, 0, [1 / 5, 1 / 20])])],
            avglosses = None, res_gmfbytes = 24\<rparr>"

subsection \<open>Notions used in the proofs about \_aggregate\<close>

text \<open>
  What the accumulator \<open>ass\<close> holds for a pair, the rows one output contributes to it, the
  shape condition under which an output is processed, and the invariant of \<open>ass\<close>.
\<close>

definition ass_rows :: "(lr_key \<times> ela_rec list list) list \<Rightarrow> lr_key \<Rightarrow> ela_rec list" where
  "ass_rows as lr = (case map_of as lr of None \<Rightarrow> [] | Some arrs \<Rightarrow> concat arrs)"

definition out_rows :: "out \<Rightarrow> ela_rec list" where
  "out_rows out =
     concat (map (\<lambda>(i, asset). asset_rows (out_eids out) (ordinal asset) (out_loss_ratios out ! i))
                 (enumerate 0 (out_assets out)))"

definition out_ok :: "monitor \<Rightarrow> out \<Rightarrow> bool" where
  "out_ok mon out = (\<forall>i < length (out_assets out). i < length (out_loss_ratios out) \<and>
      shape_ok (length (out_eids out)) (I_of mon) (out_loss_ratios out ! i))"

definition ass_inv :: "(lr_key \<times> ela_rec list list) list \<Rightarrow> bool" where
  "ass_inv as = distinct (map fst as)"

subsection \<open>EpsilonMatrix0 and EpsilonMatrix1\<close>

text \<open>
  \<open>numpy.random\<close> is a global generator: \<open>seed(s)\<close> sets its state from \<open>s\<close> (ValueError
  unless \<open>0 \<le> s < 2**32\<close>) and \<open>normal(size=n)\<close> draws \<open>n\<close> values from the state and
  advances it. The generator is a parameter: \<open>np_seed\<close> gives the state after seeding,
  \<open>np_normal\<close> the draws and the next state.
\<close>

record 'g nprandom =
  np_seed :: "int \<Rightarrow> 'g"
  np_normal :: "'g \<Rightarrow> nat \<Rightarrow> real list \<times> 'g"

definition seed_global :: "'g nprandom \<Rightarrow> int \<Rightarrow> error + 'g" where
  "seed_global np s = (if 0 \<le> s \<and> s < 2 ^ 32 then Inr (np_seed np s) else Inl ValueError)"

text \<open>
  \<open>EpsilonMatrix0\<close>: the fields of the object; \<open>eps\<close> is None until the first read. The
  matrix of shape (N, E) is kept as its E columns.
\<close>

record eps0 =
  num_assets :: nat
  seeds :: "int list"
  eps :: "real list list option"

definition EpsilonMatrix0 :: "nat \<Rightarrow> int list \<Rightarrow> eps0" where
  "EpsilonMatrix0 n ss = \<lparr>num_assets = n, seeds = ss, eps = None\<rparr>"

text \<open>
  \<open>make_eps\<close>: for every seed, seed the global generator and draw the column; \<open>f32\<close> is the
  cast that storing into the F32 matrix applies. A column of another length than N does not
  fit the matrix (ValueError).
\<close>

primrec make_cols ::
  "'g nprandom \<Rightarrow> (real \<Rightarrow> real) \<Rightarrow> nat \<Rightarrow> int list \<Rightarrow> 'g \<Rightarrow> error + (real list list \<times> 'g)" where
  "make_cols np f32 n [] g = Inr ([], g)"
| "make_cols np f32 n (s # ss) g =
     bindE (seed_global np s) (\<lambda>g1.
       let xs = fst (np_normal np g1 n); g2 = snd (np_normal np g1 n)
       in if length xs \<noteq> n then Inl ValueError
          else bindE (make_cols np f32 n ss g2) (\<lambda>(cols, g3). Inr (map f32 xs # cols, g3)))"

definition make_eps ::
  "'g nprandom \<Rightarrow> (real \<Rightarrow> real) \<Rightarrow> eps0 \<Rightarrow> 'g \<Rightarrow> error + (real list list \<times> 'g)" where
  "make_eps np f32 e g = make_cols np f32 (num_assets e) (seeds e) g"

text \<open>
  \<open>__getitem__\<close> of EpsilonMatrix0 at an index (asset, event): the value read, the object and
  the global generator afterwards.
\<close>

definition getitem0 ::
  "'g nprandom \<Rightarrow> (real \<Rightarrow> real) \<Rightarrow> eps0 \<Rightarrow> 'g \<Rightarrow> nat \<times> nat \<Rightarrow> error + (real \<times> eps0 \<times> 'g)" where
  "getitem0 np f32 e g item =
     bindE (case eps e of
              None \<Rightarrow> bindE (make_eps np f32 e g) (\<lambda>(cols, g'). Inr (cols, e\<lparr>eps := Some cols\<rparr>, g'))
            | Some cols \<Rightarrow> Inr (cols, e, g)) (\<lambda>(cols, e', g').
       if fst item < num_assets e \<and> snd item < length (seeds e)
       then Inr (cols ! snd item ! fst item, e', g') else Inl IndexError)"

text \<open>\<open>EpsilonMatrix1\<close>: the constructor seeds the global generator and draws the vector.\<close>

record eps1 =
  num_events :: nat
  seed :: int
  eps_vec :: "real list"

definition EpsilonMatrix1 :: "'g nprandom \<Rightarrow> nat \<Rightarrow> int \<Rightarrow> 'g \<Rightarrow> error + (eps1 \<times> 'g)" where
  "EpsilonMatrix1 np n s g =
     bindE (seed_global np s) (\<lambda>g1.
       let xs = fst (np_normal np g1 n); g2 = snd (np_normal np g1 n)
       in Inr (\<lparr>num_events = n, seed = s, eps_vec = xs\<rparr>, g2))"

definition getitem1 :: "eps1 \<Rightarrow> nat \<times> nat \<Rightarrow> error + real" where
  "getitem1 e item = nth_err (eps_vec e) (snd item)"

text \<open>A toy generator for examples: the state is a counter, the draws are the next counts.\<close>

definition counter_rng :: "int nprandom" where
  "counter_rng = \<lparr>np_seed = (\<lambda>s. s), np_normal = (\<lambda>g n. (map (\<lambda>k. real_of_int (g + int k)) [0..<n], g + int n))\<rparr>"

definition eps0_read :: eps0 where
  "eps0_read = \<lparr>num_assets = 2, seeds = [5, 9], eps = Some [[5, 6], [9, 10]]\<rparr>"

definition eps1_made :: eps1 where
  "eps1_made = \<lparr>num_events = 3, seed = 7, eps_vec = [7, 8, 9]\<rparr>"

subsection \<open>EbriskCalculator.build\_starmap\<close>

text \<open>
  An event based rupture counts \<open>multiplicity\<close> events. The parameters of the job that
  build\_starmap reads; \<open>asset_correlation\<close> is tested for truth, that is for being non-zero.
\<close>

record ebrupture =
  serial :: nat
  multiplicity :: nat

record oqparam =
  random_seed :: int
  master_seed :: int
  ruptures_per_block :: nat
  ignore_covs :: bool
  asset_correlation :: real

text \<open>
  The epsilon source handed to a risk input, by the arguments of its constructor: none,
  \<open>EpsilonMatrix1(num_events, master_seed)\<close> or \<open>EpsilonMatrix0(len(assetcol), seeds)\<close>.
\<close>

datatype epsilons = NoEps | Correlated nat int | Independent nat "int list"

record riskinput =
  ri_grp_id :: nat
  ri_rupts :: "ebrupture list"
  ri_eps :: epsilons

text \<open>\<open>num_events\<close> sums the multiplicities over all the groups of \<open>ruptures_by_grp\<close>.\<close>

definition num_events_of :: "(nat \<times> ebrupture list) list \<Rightarrow> nat" where
  "num_events_of ruptures_by_grp =
     sum_list (map (\<lambda>(grp, rupts). sum_list (map multiplicity rupts)) ruptures_by_grp)"

text \<open>\<open>seeds = self.oqparam.random_seed + numpy.arange(num_events)\<close>\<close>

definition all_seeds :: "oqparam \<Rightarrow> (nat \<times> ebrupture list) list \<Rightarrow> int list" where
  "all_seeds oq ruptures_by_grp =
     map (\<lambda>i. random_seed oq + int i) [0..<num_events_of ruptures_by_grp]"

text \<open>
  The body of the loop over the blocks of a group: the epsilon source of the block and the
  running offset \<open>start\<close>. \<open>covs\<close> is the truth of \<open>self.riskmodel.covs\<close>, \<open>A\<close> is
  \<open>len(self.assetcol)\<close>; a numpy slice \<open>seeds[start: start + n]\<close> is cut at the end of the array.
\<close>

definition block_step ::
  "oqparam \<Rightarrow> bool \<Rightarrow> nat \<Rightarrow> (nat \<times> ebrupture list) list \<Rightarrow> nat \<Rightarrow> ebrupture list
     \<Rightarrow> riskinput list \<times> nat \<Rightarrow> riskinput list \<times> nat" where
  "block_step oq covs A ruptures_by_grp grp_id rupts st =
     (case st of (allargs, start) \<Rightarrow>
        if ignore_covs oq \<or> \<not> covs
        then (allargs @ [\<lparr>ri_grp_id = grp_id, ri_rupts = rupts, ri_eps = NoEps\<rparr>], start)
        else if asset_correlation oq \<noteq> 0
        then (allargs @ [\<lparr>ri_grp_id = grp_id, ri_rupts = rupts,
                          ri_eps = Correlated (num_events_of ruptures_by_grp) (master_seed oq)\<rparr>], start)
        else
          let n_events = sum_list (map multiplicity rupts)
          in (allargs @ [\<lparr>ri_grp_id = grp_id, ri_rupts = rupts,
                           ri_eps = Independent A
                             (take n_events (drop start (all_seeds oq ruptures_by_grp)))\<rparr>],
              start + n_events))"

text \<open>
  \<open>build_starmap\<close>, up to the list \<open>allargs\<close> of the risk inputs it dispatches.
  \<open>block_splitter\<close> (of baselib.general) and \<open>grp_ids\<close> (the sorted group ids of the source
  model, from \<open>csm_info\<close>) are parameters; \<open>ruptures_by_grp.get(grp_id, [])\<close> is the lookup
  with the empty default.
\<close>

definition build_starmap ::
  "(ebrupture list \<Rightarrow> nat \<Rightarrow> ebrupture list list) \<Rightarrow> oqparam \<Rightarrow> bool \<Rightarrow> nat
     \<Rightarrow> (nat \<times> ebrupture list) list \<Rightarrow> nat list \<Rightarrow> riskinput list" where
  "build_starmap block_splitter oq covs A ruptures_by_grp grp_ids =
     fst (fold (\<lambda>grp_id st.
                  fold (block_step oq covs A ruptures_by_grp grp_id)
                    (block_splitter (case map_of ruptures_by_grp grp_id of None \<Rightarrow> [] | Some rs \<Rightarrow> rs)
                       (ruptures_per_block oq)) st)
            grp_ids ([], 0))"

text \<open>
  \<open>execute\<close> calls build\_starmap once per source model, with the same \<open>ruptures_by_grp\<close>;
  \<open>sms\<close> lists the group ids of each source model. All the risk inputs of the run:
\<close>

definition run_risk_inputs ::
  "(ebrupture list \<Rightarrow> nat \<Rightarrow> ebrupture list list) \<Rightarrow> oqparam \<Rightarrow> bool \<Rightarrow> nat
     \<Rightarrow> (nat \<times> ebrupture list) list \<Rightarrow> nat list list \<Rightarrow> riskinput list" where
  "run_risk_inputs block_splitter oq covs A ruptures_by_grp sms =
     concat (map (build_starmap block_splitter oq covs A ruptures_by_grp) sms)"

definition seeds_of :: "riskinput \<Rightarrow> int list" where
  "seeds_of ri = (case ri_eps ri of Independent n ss \<Rightarrow> ss | _ \<Rightarrow> [])"

text \<open>A job with independent epsilons and a splitter that makes one block per rupture.\<close>

definition oq1 :: oqparam where
  "oq1 = \<lparr>random_seed = 42, master_seed = 7, ruptures_per_block = 1, ignore_covs = False,
          asset_correlation = 0\<rparr>"

definition split1 :: "ebrupture list \<Rightarrow> nat \<Rightarrow> ebrupture list list" where
  "split1 rupts n = map (\<lambda>r. [r]) rupts"

definition rup :: "nat \<Rightarrow> nat \<Rightarrow> ebrupture" where
  "rup s m = \<lparr>serial = s, multiplicity = m\<rparr>"

subsection \<open>build\_agg\_curve\<close>

text \<open>
  \<open>scientific.event_based\<close> and \<open>scientific.average_loss\<close> are outside the source files: they are
  parameters, and they may raise. The first gets either a column of the \<open>loss\<close> field
  (insured losses) or the field as it is. A value of the result dictionary is an array or
  a number.
\<close>

datatype loss_arg = Column "real list" | Field "real list list"

datatype cval = Arr "real list" | Num real

type_synonym curve_fun = "loss_arg \<Rightarrow> real \<Rightarrow> nat \<Rightarrow> error + (real list \<times> real list)"
type_synonym avg_fun = "real list \<times> real list \<Rightarrow> error + real"

text \<open>\<open>data['loss'][:, c]\<close>\<close>

definition loss_column :: "nat \<Rightarrow> elt_rec list \<Rightarrow> error + real list" where
  "loss_column c data = mapE (\<lambda>(eid, loss). nth_err loss c) data"

definition curve_of ::
  "curve_fun \<Rightarrow> avg_fun \<Rightarrow> loss_arg \<Rightarrow> real \<Rightarrow> nat \<Rightarrow> error + (real list \<times> real list \<times> real)" where
  "curve_of event_based average_loss x ses_ratio curve_resolution =
     bindE (event_based x ses_ratio curve_resolution) (\<lambda>(losses, poes).
       bindE (average_loss (losses, poes)) (\<lambda>avg. Inr (losses, poes, avg)))"

text \<open>The body of \<open>for l, r, data in lr_data\<close>.\<close>

definition agg_curve_step ::
  "curve_fun \<Rightarrow> avg_fun \<Rightarrow> bool \<Rightarrow> real \<Rightarrow> nat \<Rightarrow> nat \<times> nat \<times> elt_rec list
     \<Rightarrow> ((nat \<times> nat \<times> string) \<times> cval) list \<Rightarrow> error + ((nat \<times> nat \<times> string) \<times> cval) list" where
  "agg_curve_step event_based average_loss insured_losses ses_ratio curve_resolution lrd result =
     (case lrd of (l, r, data) \<Rightarrow>
        if length data = 0 then Inr result
        else if insured_losses then
          bindE (loss_column 0 data) (\<lambda>gloss.
            bindE (loss_column 1 data) (\<lambda>iloss.
              bindE (curve_of event_based average_loss (Column gloss) ses_ratio curve_resolution)
                (\<lambda>(losses, poes, avg).
                  bindE (curve_of event_based average_loss (Column iloss) ses_ratio curve_resolution)
                    (\<lambda>(losses_ins, poes_ins, avg_ins).
                      Inr (AList.update (l, r, ''avg_ins'') (Num avg_ins)
                          (AList.update (l, r, ''poes_ins'') (Arr poes_ins)
                          (AList.update (l, r, ''losses_ins'') (Arr losses_ins)
                          (AList.update (l, r, ''avg'') (Num avg)
                          (AList.update (l, r, ''poes'') (Arr poes)
                          (AList.update (l, r, ''losses'') (Arr losses) result))))))))))
        else
          bindE (curve_of event_based average_loss (Field (map snd data)) ses_ratio curve_resolution)
            (\<lambda>(losses, poes, avg).
              Inr (AList.update (l, r, ''avg'') (Num avg)
                  (AList.update (l, r, ''poes'') (Arr poes)
                  (AList.update (l, r, ''losses'') (Arr losses) result)))))"

text \<open>
  \<open>build_agg_curve(lr_data, insured_losses, ses_ratio, curve_resolution, L, monitor)\<close>; the
  body reads neither \<open>L\<close> nor the monitor.
\<close>

definition build_agg_curve ::
  "curve_fun \<Rightarrow> avg_fun \<Rightarrow> (nat \<times> nat \<times> elt_rec list) list \<Rightarrow> bool \<Rightarrow> real \<Rightarrow> nat
     \<Rightarrow> error + ((nat \<times> nat \<times> string) \<times> cval) list" where
  "build_agg_curve event_based average_loss lr_data insured_losses ses_ratio curve_resolution =
     foldE (agg_curve_step event_based average_loss insured_losses ses_ratio curve_resolution)
       lr_data []"

subsection \<open>EbrPostCalculator\<close>

text \<open>
  A numpy array of floats: its shape and its values in row-major order. \<open>reshape\<close> keeps the
  values and raises ValueError when the new shape has another size.
\<close>

record ndarray =
  nd_shape :: "nat list"
  nd_flat :: "real list"

definition reshape3 :: "ndarray \<Rightarrow> nat \<Rightarrow> nat \<Rightarrow> nat \<Rightarrow> error + ndarray" where
  "reshape3 x a b c =
     (if a * b * c = length (nd_flat x) then Inr \<lparr>nd_shape = [a, b, c], nd_flat = nd_flat x\<rparr>
      else Inl ValueError)"

text \<open>The element \<open>[k, c, j]\<close> of an array of shape (a, b, l).\<close>

definition nd_get3 :: "ndarray \<Rightarrow> nat \<Rightarrow> nat \<Rightarrow> nat \<Rightarrow> real" where
  "nd_get3 x k c j = nd_flat x ! ((k * (nd_shape x ! 1) + c) * (nd_shape x ! 2) + j)"

text \<open>
  A curve builder (of risklib.scientific), by the attributes that are read here, and a
  realization of the logic tree.
\<close>

record curve_builder =
  cb_loss_type :: string
  user_provided :: bool
  curve_resolution :: nat
  cb_ratios :: "real list"

record realization =
  rlz_ordinal :: nat
  rlz_weight :: real

text \<open>
  The structured array \<open>rcurves\<close>: its shape (A, R, 2), its fields (a name and a resolution
  C each, the field being an array of C floats) and its cells: \<open>rc_cells rc lt a r i\<close> is
  \<open>rcurves[lt][a, r, i]\<close>, an array of C floats.
\<close>

record rcurves =
  rc_shape :: "nat \<times> nat \<times> nat"
  rc_fields :: "(string \<times> nat) list"
  rc_cells :: "string \<Rightarrow> nat \<Rightarrow> nat \<Rightarrow> nat \<Rightarrow> real list"

text \<open>
  \<open>numpy.zeros((A, R, 2), multi_lr_dt)\<close> with
  \<open>multi_lr_dt = [(ltype, (F32, cbuilder.curve_resolution)) for ltype, cbuilder in zip(ltypes, curve_builders)]\<close>.
\<close>

definition rcurves_zeros :: "nat \<Rightarrow> nat \<Rightarrow> string list \<Rightarrow> curve_builder list \<Rightarrow> rcurves" where
  "rcurves_zeros A R ltypes cbs =
     (let fields = map (\<lambda>(ltype, cb). (ltype, curve_resolution cb)) (zip ltypes cbs)
      in \<lparr>rc_shape = (A, R, 2), rc_fields = fields,
          rc_cells = (\<lambda>lt a r i. replicate (case map_of fields lt of None \<Rightarrow> 0 | Some C \<Rightarrow> C) 0)\<rparr>)"

text \<open>
  \<open>rcurves[lt][aids, r] = v\<close> for \<open>v\<close> of shape (a, b, l). The target has the shape
  (len(aids), 2, C); numpy broadcasts \<open>v\<close> to it: every dimension of \<open>v\<close> is the target's
  or 1, and along a dimension of size 1 the one element is repeated (\<open>bcast\<close>). The rows
  are assigned in the order of \<open>aids\<close>, so that a repeated asset keeps the last row. An
  unknown field is a ValueError, an index out of the bounds an IndexError.
\<close>

definition bcast :: "nat \<Rightarrow> nat \<Rightarrow> nat" where
  "bcast n k = (if n = 1 then 0 else k)"

definition assign_cells ::
  "ndarray \<Rightarrow> string \<Rightarrow> (nat \<times> nat) list \<Rightarrow> nat \<Rightarrow> nat \<Rightarrow> nat
     \<Rightarrow> (string \<Rightarrow> nat \<Rightarrow> nat \<Rightarrow> nat \<Rightarrow> real list) \<Rightarrow> string \<Rightarrow> nat \<Rightarrow> nat \<Rightarrow> nat \<Rightarrow> real list" where
  "assign_cells v lt kaids r I2 C cells =
     fold (\<lambda>(k, aid) cells.
             (\<lambda>lt' a' r' i.
                if lt' = lt \<and> a' = aid \<and> r' = r \<and> i < I2
                then map (\<lambda>j. nd_get3 v (bcast (nd_shape v ! 0) k) (bcast (nd_shape v ! 1) i)
                                (bcast (nd_shape v ! 2) j)) [0..<C]
                else cells lt' a' r' i))
       kaids cells"

definition rcurves_assign :: "rcurves \<Rightarrow> string \<Rightarrow> nat list \<Rightarrow> nat \<Rightarrow> ndarray \<Rightarrow> error + rcurves" where
  "rcurves_assign rc lt aids r v =
     (case map_of (rc_fields rc) lt of
        None \<Rightarrow> Inl ValueError
      | Some C \<Rightarrow>
          (case rc_shape rc of (A, R, I2) \<Rightarrow>
             if \<not> (r < R \<and> list_all (\<lambda>aid. aid < A) aids) then Inl IndexError
             else
               (case nd_shape v of
                  [a, b, l] \<Rightarrow>
                    if (a = length aids \<or> a = 1) \<and> (b = I2 \<or> b = 1) \<and> (l = C \<or> l = 1)
                    then Inr (rc\<lparr>rc_cells :=
                                assign_cells v lt (enumerate 0 aids) r I2 C (rc_cells rc)\<rparr>)
                    else Inl ValueError
                | _ \<Rightarrow> Inl ValueError)))"

text \<open>
  The configuration of the post calculator: the asset collection, the risk model
  (\<open>loss_types\<close>, \<open>lti\<close>, \<open>curve_builders\<close>), the realizations and the parameters of the job
  (\<open>loss_ratios\<close> and \<open>conditional_loss_poes\<close> are tested for truth).
\<close>

record pcfg =
  pc_assets :: "asset list"
  pc_asset_refs :: "string list"
  pc_vals :: "string \<Rightarrow> real list"
  pc_loss_types :: "string list"
  pc_lti :: "(string \<times> nat) list"
  pc_curve_builders :: "curve_builder list"
  pc_realizations :: "realization list"
  pc_insured_losses :: bool
  pc_loss_ratios :: bool
  pc_conditional_loss_poes :: "real list"
  pc_quantile_loss_curves :: "real list"
  pc_avg_losses :: bool
  pc_ses_ratio :: real
  pc_loss_curve_resolution :: nat

text \<open>\<open>scientific.Output\<close>, as \<open>_collect_all_data\<close> builds it.\<close>

record sci_output =
  o_assets :: "string list"
  o_loss_type :: string
  o_rlz :: nat
  o_weight :: real
  o_loss_curves :: "(real list \<times> real list) list"
  o_insured_curves :: "(real list \<times> real list) list option"
  o_average_losses :: "real list"
  o_average_insured_losses :: "real list option"

text \<open>
  The datastore of the post calculator. The arrays that code outside the source files
  computes (loss maps, statistics) have the type \<open>'x\<close>. \<open>ps_oqparam\<close> is the dataset
  \<open>oqparam\<close>, the parameters of the job as the datastore holds them.
\<close>

record 'x pstore =
  ps_oqparam :: "pcfg option"
  ps_agg_loss_table :: "((nat \<times> string) \<times> elt_rec list) list"
  ps_ass_loss_ratios :: "((nat \<times> string) \<times> ela_rec list) list"
  ps_avg_losses :: "dense3 option"
  ps_rcurves :: "rcurves option"
  ps_loss_maps :: "'x option"
  ps_agg_curve :: "((nat \<times> nat \<times> string) \<times> cval) list option"
  ps_loss_curves_stats :: "'x option"
  ps_loss_maps_stats :: "'x option"

text \<open>
  What the post calculator calls outside the source files: the two functions of
  \<open>build_agg_curve\<close>; \<open>cb(assets, group_array(data, 'aid'), ses_ratio)\<close>; the loop of
  \<open>save_loss_maps\<close> over \<open>cb.build_loss_maps\<close>, which fills the array of the loss maps; the
  constructor \<open>scientific.StatsBuilder(...)\<close>, which gets parameters of the job and gives a
  builder of the type \<open>'b\<close>; and the method \<open>get_curves_maps\<close> of a builder.
\<close>

record ('b, 'x) ext =
  x_event_based :: curve_fun
  x_average_loss :: avg_fun
  x_call_cb :: "curve_builder \<Rightarrow> asset list \<Rightarrow> ela_rec list \<Rightarrow> real \<Rightarrow> error + (nat list \<times> ndarray)"
  x_build_loss_maps :: "curve_builder list \<Rightarrow> rcurves \<Rightarrow> error + 'x"
  x_stats_builder :: "pcfg \<Rightarrow> error + 'b"
  x_get_curves_maps :: "'b \<Rightarrow> (string \<times> sci_output list) list \<Rightarrow> error + ('x \<times> 'x)"

text \<open>
  The body of \<open>for cb in self.riskmodel.curve_builders\<close> in \<open>save_rcurves\<close>, for the
  realization \<open>r\<close>: a missing dataset is skipped (\<open>except KeyError: continue\<close>).
\<close>

definition rcurves_step ::
  "('b, 'x) ext \<Rightarrow> pcfg \<Rightarrow> ((nat \<times> string) \<times> ela_rec list) list \<Rightarrow> nat \<Rightarrow> nat \<Rightarrow> curve_builder
     \<Rightarrow> rcurves \<Rightarrow> error + rcurves" where
  "rcurves_step x cfg tbl I r cb rc =
     (case map_of tbl (r, cb_loss_type cb) of
        None \<Rightarrow> Inr rc
      | Some data \<Rightarrow>
          if user_provided cb then
            bindE (x_call_cb x cb (pc_assets cfg) data (pc_ses_ratio cfg)) (\<lambda>(aids, curves).
              if length aids = 0 then Inr rc
              else
                (case nd_shape curves of
                   A # L # rest \<Rightarrow>
                     bindE (reshape3 curves A I L) (\<lambda>v.
                       rcurves_assign rc (cb_loss_type cb) aids r v)
                 | _ \<Rightarrow> Inl ValueError))
          else Inr rc)"

text \<open>
  \<open>save_rcurves(self, rcurves, I)\<close>. The names \<open>rlz-%03d\<close> of the group \<open>ass_loss_ratios\<close> are
  the realization numbers of its datasets, each once, in increasing order; reading the
  group raises KeyError when the datastore has no such dataset.
\<close>

definition save_rcurves :: "('b, 'x) ext \<Rightarrow> pcfg \<Rightarrow> rcurves \<Rightarrow> nat \<Rightarrow> 'x pstore \<Rightarrow> error + 'x pstore" where
  "save_rcurves x cfg rcurves I ps =
     (if ps_ass_loss_ratios ps = [] then Inl KeyError
      else
        bindE (foldE (\<lambda>r. foldE (rcurves_step x cfg (ps_ass_loss_ratios ps) I r)
                             (pc_curve_builders cfg))
                 (sort (remdups (map (fst \<circ> fst) (ps_ass_loss_ratios ps)))) rcurves)
          (\<lambda>rc. Inr (ps\<lparr>ps_rcurves := Some rc\<rparr>)))"

definition save_loss_maps :: "('b, 'x) ext \<Rightarrow> pcfg \<Rightarrow> 'x pstore \<Rightarrow> error + 'x pstore" where
  "save_loss_maps x cfg ps =
     (case ps_rcurves ps of
        Some rc \<Rightarrow>
          if pc_conditional_loss_poes cfg \<noteq> []
          then bindE (x_build_loss_maps x (filter user_provided (pc_curve_builders cfg)) rc)
                 (\<lambda>lm. Inr (ps\<lparr>ps_loss_maps := Some lm\<rparr>))
          else Inr ps
      | None \<Rightarrow> Inr ps)"

text \<open>\<open>_old_loss_curves(asset_values, rcurves, ratios)\<close>\<close>

definition old_loss_curves ::
  "real list \<Rightarrow> real list list \<Rightarrow> real list \<Rightarrow> (real list \<times> real list) list" where
  "old_loss_curves asset_values rcs ratios =
     map (\<lambda>(avalue, poes). (map (\<lambda>x. avalue * x) ratios, poes)) (zip asset_values rcs)"

text \<open>\<open>avg_losses[:, o, k]\<close> and \<open>rcurves[:, o, i]\<close> of the field \<open>lt\<close>.\<close>

definition dense_column :: "dense3 \<Rightarrow> nat \<Rightarrow> nat \<Rightarrow> error + real list" where
  "dense_column d rz k =
     (case d_shape d of (A, R, K) \<Rightarrow>
        if rz < R \<and> k < K then Inr (map (\<lambda>a. d_cells d (a, rz, k)) [0..<A])
        else Inl IndexError)"

definition rcurves_column :: "rcurves \<Rightarrow> string \<Rightarrow> nat \<Rightarrow> nat \<Rightarrow> error + real list list" where
  "rcurves_column rc lt rz i =
     (case rc_shape rc of (A, R, I2) \<Rightarrow>
        if rz < R \<and> i < I2 then Inr (map (\<lambda>a. rc_cells rc lt a rz i) [0..<A])
        else Inl IndexError)"

text \<open>The body of \<open>for rlz in rlzs\<close> in \<open>_collect_all_data\<close>: the output of a realization.\<close>

definition collect_output ::
  "pcfg \<Rightarrow> dense3 option \<Rightarrow> rcurves \<Rightarrow> nat \<Rightarrow> curve_builder \<Rightarrow> realization \<Rightarrow> error + sci_output" where
  "collect_output cfg avg_losses r_curves l cbuilder rlz =
     (let loss_type = cb_loss_type cbuilder;
          asset_values = pc_vals cfg loss_type;
          A = length (pc_asset_refs cfg);
          L = length (pc_lti cfg);
          insured = pc_insured_losses cfg
      in bindE (case avg_losses of
                  Some d \<Rightarrow>
                    bindE (dense_column d (rlz_ordinal rlz) l) (\<lambda>average_losses.
                      if insured
                      then bindE (dense_column d (rlz_ordinal rlz) (l + L))
                             (\<lambda>ins. Inr (average_losses, Some ins))
                      else Inr (average_losses, None))
                | None \<Rightarrow> Inr (replicate A 0, Some (replicate A 0)))
           (\<lambda>(average_losses, average_insured_losses).
              bindE (rcurves_column r_curves loss_type (rlz_ordinal rlz) 0) (\<lambda>rc0.
                bindE (if insured
                       then bindE (rcurves_column r_curves loss_type (rlz_ordinal rlz) 1)
                              (\<lambda>rc1. Inr (Some (old_loss_curves asset_values rc1 (cb_ratios cbuilder))))
                       else Inr None) (\<lambda>insured_curves.
                  Inr \<lparr>o_assets = pc_asset_refs cfg, o_loss_type = loss_type,
                       o_rlz = rlz_ordinal rlz, o_weight = rlz_weight rlz,
                       o_loss_curves = old_loss_curves asset_values rc0 (cb_ratios cbuilder),
                       o_insured_curves = insured_curves,
                       o_average_losses = average_losses,
                       o_average_insured_losses = average_insured_losses\<rparr>))))"

text \<open>
  \<open>_collect_all_data\<close>: the dictionary \<open>data_by_lt\<close>. The dataset \<open>avg_losses-rlzs\<close> is read
  when \<open>avg_losses\<close> is set, and \<open>rcurves-rlzs\<close> always; a field of \<open>rcurves\<close> that does not
  exist is a ValueError.
\<close>

definition collect_all_data :: "pcfg \<Rightarrow> 'x pstore \<Rightarrow> error + (string \<times> sci_output list) list" where
  "collect_all_data cfg ps =
     bindE (if pc_avg_losses cfg
            then (case ps_avg_losses ps of None \<Rightarrow> Inl KeyError | Some d \<Rightarrow> Inr (Some d))
            else Inr None) (\<lambda>avg_losses.
       case ps_rcurves ps of
         None \<Rightarrow> Inl KeyError
       | Some r_curves \<Rightarrow>
           foldE (\<lambda>(l, cbuilder) data_by_lt.
                    if map_of (rc_fields r_curves) (cb_loss_type cbuilder) = None then Inl ValueError
                    else bindE (mapE (collect_output cfg avg_losses r_curves l cbuilder)
                                  (pc_realizations cfg))
                           (\<lambda>data. Inr (AList.update (cb_loss_type cbuilder) data data_by_lt)))
             (enumerate 0 (pc_curve_builders cfg)) [])"

text \<open>
  \<open>compute_store_stats(self, rlzs, builder)\<close>: the body reads neither of its arguments;
  it makes a builder of its own, \<open>sb\<close>, from \<open>self.oqparam\<close>.
\<close>

definition compute_store_stats ::
  "('b, 'x) ext \<Rightarrow> pcfg \<Rightarrow> realization list \<Rightarrow> 'b \<Rightarrow> 'x pstore \<Rightarrow> error + 'x pstore" where
  "compute_store_stats x cfg rlzs builder ps =
     bindE (collect_all_data cfg ps) (\<lambda>data_by_lt.
       if data_by_lt = [] then Inr ps
       else bindE (x_stats_builder x cfg) (\<lambda>sb.
              bindE (x_get_curves_maps x sb data_by_lt) (\<lambda>(loss_curves, loss_maps).
                let ps1 = ps\<lparr>ps_loss_curves_stats := Some loss_curves\<rparr>
                in if pc_conditional_loss_poes cfg \<noteq> []
                   then Inr (ps1\<lparr>ps_loss_maps_stats := Some loss_maps\<rparr>)
                   else Inr ps1)))"

text \<open>
  The method \<open>build_agg_curve\<close>: \<open>lr_data\<close> is read from the aggregate loss table (\<open>lti[lt]\<close>
  raises KeyError for an unknown loss type); \<open>parallel.apply(...).reduce()\<close> is the function
  \<open>build_agg_curve\<close> on the whole of \<open>lr_data\<close>; the loop that writes the result into the
  array \<open>agg_curve\<close> raises IndexError for a loss type index or a realization out of range,
  and the array is kept as the entries written into it.
\<close>

definition save_agg_curve :: "('b, 'x) ext \<Rightarrow> pcfg \<Rightarrow> 'x pstore \<Rightarrow> error + 'x pstore" where
  "save_agg_curve x cfg ps =
     bindE (mapE (\<lambda>((r, lt), data).
                    case map_of (pc_lti cfg) lt of None \<Rightarrow> Inl KeyError | Some l \<Rightarrow> Inr (l, r, data))
              (ps_agg_loss_table ps)) (\<lambda>lr_data.
       bindE (build_agg_curve (x_event_based x) (x_average_loss x) lr_data (pc_insured_losses cfg)
                (pc_ses_ratio cfg) (pc_loss_curve_resolution cfg)) (\<lambda>result.
         if list_all (\<lambda>((l, r, name), v). l < length (pc_loss_types cfg)
                                          \<and> r < length (pc_realizations cfg)) result
         then Inr (ps\<lparr>ps_agg_curve := Some result\<rparr>)
         else Inl IndexError))"

text \<open>
  \<open>build_stats\<close>: \<open>oq = self.datastore['oqparam']\<close> (KeyError when the dataset is missing) and
  the builder \<open>scientific.StatsBuilder(oq.quantile_loss_curves, ...)\<close> come first, whatever the
  number of realizations is; then the aggregate curves; then the statistics, for more than
  one realization and with \<open>rcurves-rlzs\<close> in the datastore only. The realizations are read
  from \<open>csm_info\<close>, which the calculator has stored: they are \<open>pc_realizations\<close>.
\<close>

definition build_stats :: "('b, 'x) ext \<Rightarrow> pcfg \<Rightarrow> 'x pstore \<Rightarrow> error + 'x pstore" where
  "build_stats x cfg ps =
     (case ps_oqparam ps of
        None \<Rightarrow> Inl KeyError
      | Some oq \<Rightarrow>
          bindE (x_stats_builder x oq) (\<lambda>builder.
            bindE (if ps_agg_loss_table ps \<noteq> [] then save_agg_curve x cfg ps else Inr ps) (\<lambda>ps1.
              let rlzs = pc_realizations cfg
              in if length rlzs > 1
                 then (if ps_rcurves ps1 \<noteq> None then compute_store_stats x cfg rlzs builder ps1
                       else Inr ps1)
                 else Inr ps1)))"

text \<open>\<open>EbrPostCalculator.execute\<close>\<close>

definition execute :: "('b, 'x) ext \<Rightarrow> pcfg \<Rightarrow> 'x pstore \<Rightarrow> error + 'x pstore" where
  "execute x cfg ps =
     (let A = length (pc_assets cfg);
          I = (if pc_insured_losses cfg then 2 else 1);
          R = length (pc_realizations cfg);
          rcurves = rcurves_zeros A R (pc_loss_types cfg) (pc_curve_builders cfg)
      in bindE (if pc_loss_ratios cfg then save_rcurves x cfg rcurves I ps else Inr ps) (\<lambda>ps1.
           bindE (if pc_conditional_loss_poes cfg \<noteq> [] then save_loss_maps x cfg ps1 else Inr ps1)
             (\<lambda>ps2. build_stats x cfg ps2)))"

text \<open>
  A post calculation on one asset, one loss type and one realization, without insured
  losses (I = 1). The curve builder returns one curve of two points for the asset 0.
\<close>

definition cb1 :: curve_builder where
  "cb1 = \<lparr>cb_loss_type = ''structural'', user_provided = True, curve_resolution = 2,
          cb_ratios = [1 / 10, 1 / 2]\<rparr>"

definition cfg1 :: pcfg where
  "cfg1 = \<lparr>pc_assets = [asset1], pc_asset_refs = [''a1''], pc_vals = (\<lambda>lt. [100]),
           pc_loss_types = [''structural''], pc_lti = [(''structural'', 0)],
           pc_curve_builders = [cb1], pc_realizations = [\<lparr>rlz_ordinal = 0, rlz_weight = 1\<rparr>],
           pc_insured_losses = False, pc_loss_ratios = True, pc_conditional_loss_poes = [],
           pc_quantile_loss_curves = [],
           pc_avg_losses = False, pc_ses_ratio = 1, pc_loss_curve_resolution = 2\<rparr>"

definition call_cb1 :: "curve_builder \<Rightarrow> asset list \<Rightarrow> ela_rec list \<Rightarrow> real \<Rightarrow> error + (nat list \<times> ndarray)" where
  "call_cb1 cb assets data ses_ratio = Inr ([0], \<lparr>nd_shape = [1, 2], nd_flat = [3 / 4, 1 / 4]\<rparr>)"

definition curve1 :: curve_fun where
  "curve1 x ses_ratio C = Inr ([2, 1], [1 / 2, 1])"

definition avg1 :: avg_fun where
  "avg1 c = Inr (3 / 2)"

definition loss_maps1 :: "curve_builder list \<Rightarrow> rcurves \<Rightarrow> error + real list" where
  "loss_maps1 cbs rc = Inr []"

definition builder1 :: "pcfg \<Rightarrow> error + real list" where
  "builder1 oq = Inr (pc_quantile_loss_curves oq)"

definition stats1 :: "real list \<Rightarrow> (string \<times> sci_output list) list \<Rightarrow> error + (real list \<times> real list)" where
  "stats1 sb data_by_lt = Inr ([1], [2])"

definition ext1 :: "(real list, real list) ext" where
  "ext1 = \<lparr>x_event_based = curve1, x_average_loss = avg1, x_call_cb = call_cb1,
           x_build_loss_maps = loss_maps1, x_stats_builder = builder1,
           x_get_curves_maps = stats1\<rparr>"

definition ps1 :: "real list pstore" where
  "ps1 = \<lparr>ps_oqparam = Some cfg1,
          ps_agg_loss_table = [((0, ''structural''), [(0, [10])])],
          ps_ass_loss_ratios = [((0, ''structural''), [(0, 0, [1 / 10])])],
          ps_avg_losses = None, ps_rcurves = None, ps_loss_maps = None, ps_agg_curve = None,
          ps_loss_curves_stats = None, ps_loss_maps_stats = None\<rparr>"


text \<open>What a run leaves in the datastore, for the statements about examples.\<close>

definition persisted_rcurves :: "error + 'x pstore \<Rightarrow> rcurves option" where
  "persisted_rcurves res = (case res of Inl e \<Rightarrow> None | Inr ps \<Rightarrow> ps_rcurves ps)"

definition persisted_cell :: "error + 'x pstore \<Rightarrow> string \<Rightarrow> nat \<Rightarrow> nat \<Rightarrow> nat \<Rightarrow> real list option" where
  "persisted_cell res lt a r i = map_option (\<lambda>rc. rc_cells rc lt a r i) (persisted_rcurves res)"






definition lr_data1 :: "(nat \<times> nat \<times> elt_rec list) list" where
  "lr_data1 = [(0, 0, []), (0, 1, [(0, [10])])]"

definition agg_result1 :: "((nat \<times> nat \<times> string) \<times> cval) list" where
  "agg_result1 = [((0, 1, ''losses''), Arr [2, 1]), ((0, 1, ''poes''), Arr [1 / 2, 1]),
                  ((0, 1, ''avg''), Num (3 / 2))]"

definition cols_equal :: "rcurves \<Rightarrow> bool" where
  "cols_equal rc = (\<forall>lt a r. rc_cells rc lt a r 1 = rc_cells rc lt a r 0)"

subsection \<open>EbriskCalculator.save\_results and save\_losses\<close>



text \<open>
  \<open>dset[:, c, k] += v\<close>: every cell (a, c, k) of the dense array gets the float sum of what
  it held and of \<open>v[a]\<close>; the other cells are left as they are.
\<close>

definition col_store :: "(real \<Rightarrow> real \<Rightarrow> real) \<Rightarrow> nat \<Rightarrow> nat \<Rightarrow> real list \<Rightarrow> dense3 \<Rightarrow> dense3" where
  "col_store fadd c k v dset =
     dset\<lparr>d_cells := (\<lambda>(a, c', k').
                  if c' = c \<and> k' = k \<and> a < length v
                  then fadd (d_cells dset (a, c', k')) (v ! a)
                  else d_cells dset (a, c', k'))\<rparr>"
















subsection \<open>Notions used in the proofs about save\_results\<close>
















section \<open>Theorems\<close>

lemma bindE_Inr [simp]: "bindE (Inr x) f = f x"
  by (simp add: bindE_def)

lemma bindE_Inl [simp]: "bindE (Inl e) f = Inl e"
  by (simp add: bindE_def)

lemma bindE_eq_Inr: "bindE m f = Inr y \<longleftrightarrow> (\<exists>x. m = Inr x \<and> f x = Inr y)"
  by (cases m) simp_all

subsection \<open>C2: the fatal check of post\_execute\<close>

text \<open>
  C2, as stated, fails: a run that produced no loss at all but read GMFs completes, with a
  warning in the log and no error.
\<close>

theorem C2_zero_losses_not_fatal_counterexample:
  "agg_loss_table calc_no_losses = [] \<and> ass_loss_ratios calc_no_losses = []
   \<and> post_execute parent_ok 2 calc_no_losses 3 =
       Inr (calc_no_losses\<lparr>job_info := Some 8, warnings := [no_losses_msg]\<rparr>)"
  by (simp add: post_execute_def parent_ok_def calc_no_losses_def Let_def)

text \<open>
  C2, amended: post\_execute raises the RuntimeError exactly when the byte count of the GMFs
  is zero; when GMFs were read and no aggregate loss table exists, the run completes and
  the log holds the warning that no losses were generated.
\<close>

theorem C2_post_execute_fatal_iff_no_gmfs:
  assumes "parent c n = Inr c1"
  shows "(post_execute parent A c n = Inl (RuntimeError no_gmfs_msg) \<longleftrightarrow> gmfbytes c1 = 0)
       \<and> (gmfbytes c1 \<noteq> 0 \<and> agg_loss_table c1 = [] \<and> (ass_loss_ratios c1 = [] \<or> A * n \<noteq> 0)
            \<longrightarrow> (\<exists>c2. post_execute parent A c n = Inr c2
                      \<and> warnings c2 = warnings c1 @ [no_losses_msg]))"
  using assms
  by (auto simp: post_execute_def Let_def nonzero_fractions_def bindE_def split: sum.splits)

theorem C2_post_execute_fatal_iff_no_gmfs_witness:
  "parent_ok calc_no_losses 3 = Inr calc_no_losses
   \<and> (post_execute parent_ok 2 calc_no_losses 3 = Inl (RuntimeError no_gmfs_msg)
      \<longleftrightarrow> gmfbytes calc_no_losses = 0)
   \<and> (\<exists>c2. post_execute parent_ok 2 calc_no_losses 3 = Inr c2
          \<and> warnings c2 = warnings calc_no_losses @ [no_losses_msg])"
  using C2_post_execute_fatal_iff_no_gmfs [of parent_ok calc_no_losses 3 calc_no_losses 2]
  by (simp add: calc_no_losses_def parent_ok_def)

subsection \<open>Facts about \_aggregate\<close>

lemma event_based_risk_example:
  "event_based_risk mon1 [''structural''] 1 [0, 1, 2] [out1] = Inr res1"
  by (simp add: event_based_risk_def aggregate_def output_step_def asset_step_def mon1_def
      out1_def asset1_def res1_def nth_err_def lookup_idx_def idx_of_def shape_ok_def I_of_def
      zeros_def asset_rows_def ass_append_def agg_add_def agg_records_def dense_agg_def Let_def)

lemma event_based_risk_example_insured:
  "event_based_risk mon2 [''structural''] 1 [0, 1, 2] [out2] = Inr res2"
  by code_simp

lemma ass_rows_append:
  "ass_rows (ass_append as lr data) lr' = ass_rows as lr' @ (if lr' = lr then data else [])"
  by (auto simp: ass_rows_def ass_append_def update_conv' split: option.splits)

lemma ass_inv_append: "ass_inv as \<Longrightarrow> ass_inv (ass_append as lr data)"
  by (simp add: ass_inv_def ass_append_def distinct_update)

lemma asset_step_ass:
  assumes "asset_step mon A out lt inds (i, asset) (m, a) = Inr (m', a')"
  shows "ass_rows (ass a') lr = ass_rows (ass a) lr @
           (if mon_loss_ratios mon \<and> lr = out_lr out
            then asset_rows (out_eids out) (ordinal asset) (out_loss_ratios out ! i) else [])"
    and "ass_inv (ass a) \<Longrightarrow> ass_inv (ass a')"
    and "i < length (out_loss_ratios out) \<and> shape_ok (length (out_eids out)) (I_of mon) (out_loss_ratios out ! i)"
  using assms
  by (auto simp: asset_step_def bindE_eq_Inr nth_err_def Let_def ass_rows_append ass_inv_append split: if_splits)

lemma foldE_asset_ass:
  assumes "foldE (asset_step mon A out lt inds) (enumerate n assets) (m, a) = Inr (m', a')"
  shows "ass_rows (ass a') lr = ass_rows (ass a) lr @
           (if mon_loss_ratios mon \<and> lr = out_lr out
            then concat (map (\<lambda>(i, asset). asset_rows (out_eids out) (ordinal asset) (out_loss_ratios out ! i))
                   (enumerate n assets)) else [])
       \<and> (ass_inv (ass a) \<longrightarrow> ass_inv (ass a'))
       \<and> (\<forall>i. n \<le> i \<and> i < n + length assets \<longrightarrow> i < length (out_loss_ratios out) \<and>
              shape_ok (length (out_eids out)) (I_of mon) (out_loss_ratios out ! i))"
  using assms
proof (induction assets arbitrary: n m a)
  case Nil
  then show ?case by auto
next
  case (Cons x xs)
  from Cons.prems obtain m1 a1 where
    s1: "asset_step mon A out lt inds (n, x) (m, a) = Inr (m1, a1)" and
    s2: "foldE (asset_step mon A out lt inds) (enumerate (Suc n) xs) (m1, a1) = Inr (m', a')"
    by (auto simp: bindE_eq_Inr)
  note h1 = asset_step_ass[OF s1]
  note h2 = Cons.IH[OF s2]
  have "\<And>i. n \<le> i \<Longrightarrow> i < n + length (x # xs) \<Longrightarrow> i = n \<or> (Suc n \<le> i \<and> i < Suc n + length xs)"
    by auto
  with h1 h2 show ?case
    by (auto simp: h1(1)[of lr])
qed

lemma output_step_ass:
  assumes "output_step mon lts A eids out a = Inr a'"
  shows "ass_rows (ass a') lr = ass_rows (ass a) lr @
           (if mon_loss_ratios mon \<and> lr = out_lr out then out_rows out else [])"
    and "ass_inv (ass a) \<Longrightarrow> ass_inv (ass a')"
    and "out_ok mon out"
proof -
  from assms obtain lt inds m' a1 where
    f: "foldE (asset_step mon A out lt inds) (enumerate 0 (out_assets out))
          (dense_agg mon eids a (out_lr out), a) = Inr (m', a1)"
    and a': "a' = a1\<lparr>agg := (agg a1)(out_lr out \<mapsto> m')\<rparr>"
    by (auto simp: output_step_def bindE_eq_Inr dense_agg_def Let_def)
  note h = foldE_asset_ass[OF f, of lr]
  from h a' show "ass_rows (ass a') lr = ass_rows (ass a) lr @
           (if mon_loss_ratios mon \<and> lr = out_lr out then out_rows out else [])"
    by (simp add: out_rows_def)
  from h a' show "ass_inv (ass a) \<Longrightarrow> ass_inv (ass a')" by simp
  from h show "out_ok mon out" by (simp add: out_ok_def)
qed

lemma foldE_output_ass:
  assumes "foldE (output_step mon lts A eids) outs a = Inr a'"
  shows "ass_rows (ass a') lr = ass_rows (ass a) lr @
           (if mon_loss_ratios mon
            then concat (map out_rows (filter (\<lambda>out. out_lr out = lr) outs)) else [])
       \<and> (ass_inv (ass a) \<longrightarrow> ass_inv (ass a'))
       \<and> (\<forall>out \<in> set outs. out_ok mon out)"
  using assms
proof (induction outs arbitrary: a)
  case Nil
  then show ?case by auto
next
  case (Cons x xs)
  from Cons.prems obtain a1 where
    s1: "output_step mon lts A eids x a = Inr a1" and
    s2: "foldE (output_step mon lts A eids) xs a1 = Inr a'"
    by (auto simp: bindE_eq_Inr)
  note h1 = output_step_ass[OF s1]
  note h2 = Cons.IH[OF s2]
  from h1 h2 show ?case
    by (auto simp: h1(1)[of lr])
qed

lemma in_asset_rows:
  "(eid, aid', loss) \<in> set (asset_rows eids aid rows) \<longleftrightarrow>
     aid' = aid \<and> 0 < sum_list loss \<and> (eid, loss) \<in> set (zip eids rows)"
  by (auto simp: asset_rows_def)

lemma in_out_rows:
  "(eid, aid, loss) \<in> set (out_rows out) \<longleftrightarrow>
     (\<exists>i < length (out_assets out). aid = ordinal (out_assets out ! i) \<and> 0 < sum_list loss \<and>
        (eid, loss) \<in> set (zip (out_eids out) (out_loss_ratios out ! i)))"
proof
  assume "(eid, aid, loss) \<in> set (out_rows out)"
  then obtain i asset where "(i, asset) \<in> set (enumerate 0 (out_assets out))"
    and "(eid, aid, loss) \<in> set (asset_rows (out_eids out) (ordinal asset) (out_loss_ratios out ! i))"
    by (auto simp: out_rows_def)
  then show "\<exists>i < length (out_assets out). aid = ordinal (out_assets out ! i) \<and> 0 < sum_list loss \<and>
        (eid, loss) \<in> set (zip (out_eids out) (out_loss_ratios out ! i))"
    by (auto simp: in_asset_rows in_set_enumerate_eq)
next
  assume "\<exists>i < length (out_assets out). aid = ordinal (out_assets out ! i) \<and> 0 < sum_list loss \<and>
        (eid, loss) \<in> set (zip (out_eids out) (out_loss_ratios out ! i))"
  then obtain i where i: "i < length (out_assets out)" "aid = ordinal (out_assets out ! i)"
     "0 < sum_list loss" "(eid, loss) \<in> set (zip (out_eids out) (out_loss_ratios out ! i))"
    by blast
  have "(i, out_assets out ! i) \<in> set (enumerate 0 (out_assets out))"
    using i(1) by (simp add: in_set_enumerate_eq)
  moreover have "(eid, aid, loss) \<in> set (asset_rows (out_eids out) (ordinal (out_assets out ! i))
      (out_loss_ratios out ! i))"
    using i by (simp add: in_asset_rows)
  ultimately show "(eid, aid, loss) \<in> set (out_rows out)"
    unfolding out_rows_def by (auto intro!: bexI[of _ "(i, out_assets out ! i)"])
qed

lemma event_based_risk_asslosses:
  assumes "event_based_risk mon lts A eids outs = Inr res"
  shows "(\<exists>rows. (lr, rows) \<in> set (asslosses res) \<and> x \<in> set rows) \<longleftrightarrow>
           mon_loss_ratios mon \<and> (\<exists>out \<in> set outs. out_lr out = lr \<and> x \<in> set (out_rows out))"
    and "\<forall>out \<in> set outs. out_ok mon out"
proof -
  from assms obtain a where
    f: "foldE (output_step mon lts A eids) outs \<lparr>agg = Map.empty, ass = [], avg = []\<rparr> = Inr a"
    and r: "asslosses res =
       concat (map (\<lambda>(lr, arrs). if arrs \<noteq> [] then [(lr, concat arrs)] else []) (ass a))"
    by (auto simp: event_based_risk_def aggregate_def bindE_eq_Inr)
  note h = foldE_output_ass[OF f, of lr]
  from h have d: "distinct (map fst (ass a))" by (simp add: ass_inv_def)
  have "(\<exists>rows. (lr, rows) \<in> set (asslosses res) \<and> x \<in> set rows) \<longleftrightarrow>
          (\<exists>arrs. (lr, arrs) \<in> set (ass a) \<and> x \<in> set (concat arrs))"
  proof
    assume "\<exists>rows. (lr, rows) \<in> set (asslosses res) \<and> x \<in> set rows"
    then obtain rows where "(lr, rows) \<in> set (asslosses res)" "x \<in> set rows" by blast
    then obtain k arrs where "(k, arrs) \<in> set (ass a)" "arrs \<noteq> []" "(lr, rows) = (k, concat arrs)"
      unfolding r by (auto split: if_splits)
    with \<open>x \<in> set rows\<close> show "\<exists>arrs. (lr, arrs) \<in> set (ass a) \<and> x \<in> set (concat arrs)"
      by blast
  next
    assume "\<exists>arrs. (lr, arrs) \<in> set (ass a) \<and> x \<in> set (concat arrs)"
    then obtain arrs where m: "(lr, arrs) \<in> set (ass a)" "x \<in> set (concat arrs)" by blast
    then have "arrs \<noteq> []" by auto
    with m(1) have "(lr, concat arrs) \<in> set (asslosses res)"
      unfolding r by (cases lr) (auto intro!: bexI[of _ "(lr, arrs)"])
    with m(2) show "\<exists>rows. (lr, rows) \<in> set (asslosses res) \<and> x \<in> set rows" by blast
  qed
  also have "\<dots> \<longleftrightarrow> x \<in> set (ass_rows (ass a) lr)"
    using d by (auto simp: ass_rows_def split: option.splits)
  also have "\<dots> \<longleftrightarrow> mon_loss_ratios mon \<and> (\<exists>out \<in> set outs. out_lr out = lr \<and> x \<in> set (out_rows out))"
  proof -
    have "ass_rows [] lr = []" by (simp add: ass_rows_def)
    with h have e: "ass_rows (ass a) lr = (if mon_loss_ratios mon
            then concat (map out_rows (filter (\<lambda>out. out_lr out = lr) outs)) else [])"
      by simp
    show ?thesis unfolding e by auto
  qed
  finally show "(\<exists>rows. (lr, rows) \<in> set (asslosses res) \<and> x \<in> set rows) \<longleftrightarrow>
           mon_loss_ratios mon \<and> (\<exists>out \<in> set outs. out_lr out = lr \<and> x \<in> set (out_rows out))" .
  from h show "\<forall>out \<in> set outs. out_ok mon out" by simp
qed


subsection \<open>C1: sparsity of the aggregate loss records\<close>

text \<open>
  C1: every record of \<open>agglosses\<close>, for every pair (loss type, realization), has a total loss
  (the sum of its row over the insured dimension) strictly greater than zero, and no pair
  is stored with an empty record array: the rows of the dense aggregate whose total is
  not positive are left out.
\<close>

theorem C1_agglosses_records_positive:
  assumes "event_based_risk mon lts A eids outs = Inr res"
    and "(lr, recs) \<in> set (agglosses res)"
  shows "recs \<noteq> [] \<and> (\<forall>(eid, loss) \<in> set recs. 0 < sum_list loss)
       \<and> (\<exists>lrs a. aggregate mon lts A eids outs \<lparr>agg = Map.empty, ass = [], avg = []\<rparr> = Inr (lrs, a)
              \<and> recs = filter (\<lambda>(eid, loss). 0 < sum_list loss)
                         (map (\<lambda>(i, loss). (eids ! i, loss)) (enumerate 0 (dense_agg mon eids a lr))))"
proof -
  from assms(1) obtain lrs a where
    a: "aggregate mon lts A eids outs \<lparr>agg = Map.empty, ass = [], avg = []\<rparr> = Inr (lrs, a)"
    and r: "agglosses res =
       concat (map (\<lambda>lr. let records = agg_records eids (dense_agg mon eids a lr)
                          in if records \<noteq> [] then [(lr, records)] else []) lrs)"
    by (auto simp: event_based_risk_def bindE_eq_Inr)
  from assms(2) have recs: "recs = agg_records eids (dense_agg mon eids a lr)" and ne: "recs \<noteq> []"
    unfolding r by (auto simp: Let_def split: if_splits)
  have f: "agg_records eids d = filter (\<lambda>(eid, loss). 0 < sum_list loss)
             (map (\<lambda>(i, loss). (eids ! i, loss)) (enumerate 0 d))" for d
    by (simp add: agg_records_def filter_map comp_def case_prod_unfold)
  have pos: "\<forall>(eid, loss) \<in> set recs. 0 < sum_list loss"
    unfolding recs by (auto simp: agg_records_def)
  have "recs = filter (\<lambda>(eid, loss). 0 < sum_list loss)
                 (map (\<lambda>(i, loss). (eids ! i, loss)) (enumerate 0 (dense_agg mon eids a lr)))"
    unfolding recs by (rule f)
  with a have "\<exists>lrs a. aggregate mon lts A eids outs \<lparr>agg = Map.empty, ass = [], avg = []\<rparr> = Inr (lrs, a)
              \<and> recs = filter (\<lambda>(eid, loss). 0 < sum_list loss)
                         (map (\<lambda>(i, loss). (eids ! i, loss)) (enumerate 0 (dense_agg mon eids a lr)))"
    by (intro exI conjI)
  with ne pos show ?thesis by (intro conjI)
qed

theorem C1_agglosses_records_positive_witness:
  "event_based_risk mon1 [''structural''] 1 [0, 1, 2] [out1] = Inr res1
   \<and> ((0, 0), [(0, [10]), (2, [20])]) \<in> set (agglosses res1)
   \<and> 0 < sum_list [10 :: real] \<and> 0 < sum_list [20 :: real]"
proof -
  have m: "((0, 0), [(0, [10]), (2, [20])]) \<in> set (agglosses res1)"
    by (simp add: res1_def)
  from C1_agglosses_records_positive [OF event_based_risk_example m]
  have "\<forall>(eid, loss) \<in> set [(0 :: nat, [10 :: real]), (2, [20])]. 0 < sum_list loss"
    by blast
  with event_based_risk_example m show ?thesis
    by simp
qed

subsection \<open>C6 and C7: the asset loss records\<close>

text \<open>
  C6: with asset loss output requested, for every asset \<open>i\<close> and event \<open>j\<close> of an output the
  row (event id, asset ordinal, loss row) is in the asset loss records of the output's pair
  if and only if the loss row sums to more than zero over the insured dimension. The loss
  row is the one zipped with the event ids, the row of loss ratios. In particular a row
  \<open>[g, 0]\<close> with a positive ground value and a zero insured value is kept.
\<close>

theorem C6_asset_row_buffered_iff_positive:
  assumes "event_based_risk mon lts A eids outs = Inr res" and "mon_loss_ratios mon"
    and "out \<in> set outs" and "i < length (out_assets out)" and "j < length (out_eids out)"
  shows "((\<exists>rows. (out_lr out, rows) \<in> set (asslosses res)
            \<and> (out_eids out ! j, ordinal (out_assets out ! i), out_loss_ratios out ! i ! j) \<in> set rows)
          \<longleftrightarrow> 0 < sum_list (out_loss_ratios out ! i ! j))
       \<and> (\<forall>g. out_loss_ratios out ! i ! j = [g, 0] \<and> 0 < g \<longrightarrow>
            (\<exists>rows. (out_lr out, rows) \<in> set (asslosses res)
               \<and> (out_eids out ! j, ordinal (out_assets out ! i), [g, 0]) \<in> set rows))"
proof -
  let ?row = "(out_eids out ! j, ordinal (out_assets out ! i), out_loss_ratios out ! i ! j)"
  from event_based_risk_asslosses(2)[OF assms(1)] assms(3,4)
  have sh: "i < length (out_loss_ratios out)"
    "shape_ok (length (out_eids out)) (I_of mon) (out_loss_ratios out ! i)"
    by (auto simp: out_ok_def)
  then have len: "length (out_loss_ratios out ! i) = length (out_eids out)"
    by (simp add: shape_ok_def)
  have z: "(out_eids out ! j, out_loss_ratios out ! i ! j) \<in> set (zip (out_eids out) (out_loss_ratios out ! i))"
    using assms(5) len by (auto simp: in_set_zip)
  have iff: "(\<exists>rows. (out_lr out, rows) \<in> set (asslosses res) \<and> ?row \<in> set rows)
          \<longleftrightarrow> 0 < sum_list (out_loss_ratios out ! i ! j)"
  proof
    assume "\<exists>rows. (out_lr out, rows) \<in> set (asslosses res) \<and> ?row \<in> set rows"
    then obtain out' where "?row \<in> set (out_rows out')"
      unfolding event_based_risk_asslosses(1)[OF assms(1)] by blast
    then show "0 < sum_list (out_loss_ratios out ! i ! j)"
      by (auto simp: in_out_rows)
  next
    assume "0 < sum_list (out_loss_ratios out ! i ! j)"
    with z assms(4) have "?row \<in> set (out_rows out)"
      unfolding in_out_rows by blast
    with assms(2,3) show "\<exists>rows. (out_lr out, rows) \<in> set (asslosses res) \<and> ?row \<in> set rows"
      unfolding event_based_risk_asslosses(1)[OF assms(1)] by blast
  qed
  have part: "\<exists>rows. (out_lr out, rows) \<in> set (asslosses res)
           \<and> (out_eids out ! j, ordinal (out_assets out ! i), [g, 0]) \<in> set rows"
    if g: "out_loss_ratios out ! i ! j = [g, 0] \<and> 0 < g" for g
  proof -
    from g have "0 < sum_list (out_loss_ratios out ! i ! j)" by simp
    with iff g show ?thesis by simp
  qed
  show ?thesis
  proof (rule conjI)
    show "(\<exists>rows. (out_lr out, rows) \<in> set (asslosses res) \<and> ?row \<in> set rows)
          \<longleftrightarrow> 0 < sum_list (out_loss_ratios out ! i ! j)"
      by (rule iff)
    show "\<forall>g. out_loss_ratios out ! i ! j = [g, 0] \<and> 0 < g \<longrightarrow>
            (\<exists>rows. (out_lr out, rows) \<in> set (asslosses res)
               \<and> (out_eids out ! j, ordinal (out_assets out ! i), [g, 0]) \<in> set rows)"
      using part by blast
  qed
qed

theorem C6_asset_row_buffered_iff_positive_witness:
  "event_based_risk mon2 [''structural''] 1 [0, 1, 2] [out2] = Inr res2
   \<and> mon_loss_ratios mon2 \<and> out2 \<in> set [out2]
   \<and> 0 < length (out_assets out2) \<and> 0 < length (out_eids out2)
   \<and> out_loss_ratios out2 ! 0 ! 0 = [1 / 10, 0] \<and> (0 :: real) < 1 / 10
   \<and> (\<exists>rows. (out_lr out2, rows) \<in> set (asslosses res2)
          \<and> (out_eids out2 ! 0, ordinal (out_assets out2 ! 0), [1 / 10, 0]) \<in> set rows)"
proof -
  have h: "mon_loss_ratios mon2" "out2 \<in> set [out2]" "0 < length (out_assets out2)"
    "0 < length (out_eids out2)"
    by (simp_all add: mon2_def out2_def)
  have g: "out_loss_ratios out2 ! 0 ! 0 = [1 / 10, 0] \<and> (0 :: real) < 1 / 10"
    by (simp add: out2_def)
  from C6_asset_row_buffered_iff_positive [OF event_based_risk_example_insured h] g
  have "\<exists>rows. (out_lr out2, rows) \<in> set (asslosses res2)
          \<and> (out_eids out2 ! 0, ordinal (out_assets out2 ! 0), [1 / 10, 0]) \<in> set rows"
    by blast
  with event_based_risk_example_insured h g show ?thesis
    by (intro conjI) simp_all
qed

text \<open>
  C7, as stated, fails: the loss field of an asset loss record is the loss ratio, not the
  loss ratio times the value of the asset. In the task above the asset is worth 100 and the
  first event has the loss ratio 0.1: the asset loss record holds 0.1, while the aggregate
  loss record of the same event holds the loss 10.
\<close>

theorem C7_asset_loss_not_scaled_counterexample:
  "event_based_risk mon1 [''structural''] 1 [0, 1, 2] [out1] =
     Inr \<lparr>agglosses = [((0, 0), [(0, [10]), (2, [20])])],
          asslosses = [((0, 0), [(0, 0, [1 / 10]), (2, 0, [1 / 5])])],
          avglosses = None, res_gmfbytes = 24\<rparr>
   \<and> out_loss_ratios out1 ! 0 ! 0 = [1 / 10]
   \<and> avalue (out_assets out1 ! 0) ''structural'' = 100
   \<and> [1 / 10 :: real] \<noteq> [1 / 10 * 100]"
  using event_based_risk_example
  by (simp add: res1_def out1_def asset1_def)

text \<open>
  C7, amended: the loss field of every asset loss record is a row of loss ratios of its
  asset and event as the output carries it, not scaled by the value of the asset (the
  scaled losses go to the aggregate only).
\<close>

theorem C7_asset_loss_records_hold_loss_ratios:
  assumes "event_based_risk mon lts A eids outs = Inr res"
    and "(lr, rows) \<in> set (asslosses res)" and "(eid, aid, loss) \<in> set rows"
  shows "\<exists>out \<in> set outs. \<exists>i < length (out_assets out). \<exists>j < length (out_eids out).
           out_lr out = lr \<and> eid = out_eids out ! j \<and> aid = ordinal (out_assets out ! i)
           \<and> loss = out_loss_ratios out ! i ! j"
proof -
  from assms(2,3) have "\<exists>rows. (lr, rows) \<in> set (asslosses res) \<and> (eid, aid, loss) \<in> set rows"
    by blast
  then obtain out where o: "out \<in> set outs" "out_lr out = lr" "(eid, aid, loss) \<in> set (out_rows out)"
    unfolding event_based_risk_asslosses(1)[OF assms(1)] by blast
  from o(3) obtain i where i: "i < length (out_assets out)" "aid = ordinal (out_assets out ! i)"
    "(eid, loss) \<in> set (zip (out_eids out) (out_loss_ratios out ! i))"
    unfolding in_out_rows by blast
  from i(3) obtain j where j: "j < length (out_eids out)" "eid = out_eids out ! j"
    "loss = out_loss_ratios out ! i ! j"
    by (auto simp: in_set_zip)
  from o(1,2) i(1,2) j show ?thesis by blast
qed

theorem C7_asset_loss_records_hold_loss_ratios_witness:
  "event_based_risk mon1 [''structural''] 1 [0, 1, 2] [out1] = Inr res1
   \<and> ((0, 0), [(0, 0, [1 / 10]), (2, 0, [1 / 5])]) \<in> set (asslosses res1)
   \<and> (\<exists>out \<in> set [out1]. \<exists>i < length (out_assets out). \<exists>j < length (out_eids out).
           out_lr out = (0, 0) \<and> 0 = out_eids out ! j \<and> 0 = ordinal (out_assets out ! i)
           \<and> [1 / 10] = out_loss_ratios out ! i ! j)"
proof -
  have m: "((0, 0), [(0, 0, [1 / 10]), (2, 0, [1 / 5])]) \<in> set (asslosses res1)"
    by (simp add: res1_def)
  have r: "(0, 0, [1 / 10]) \<in> set [(0 :: nat, 0 :: nat, [1 / 10 :: real]), (2, 0, [1 / 5])]"
    by simp
  from C7_asset_loss_records_hold_loss_ratios [OF event_based_risk_example m r]
    event_based_risk_example m
  show ?thesis by (intro conjI)
qed

subsection \<open>C4: determinism of the epsilon sources\<close>

lemma make_cols_det:
  "make_cols np f32 n ss g = Inr (cols, g') \<Longrightarrow> \<exists>h'. make_cols np f32 n ss h = Inr (cols, h')"
  by (cases ss) (auto simp: bindE_eq_Inr Let_def split: if_splits)

lemma getitem0_after_read:
  assumes "getitem0 np f32 (EpsilonMatrix0 n ss) g item1 = Inr (v1, e1, g1)"
  shows "\<exists>cols. eps e1 = Some cols \<and> num_assets e1 = n \<and> seeds e1 = ss
           \<and> (\<forall>h. \<exists>h'. make_cols np f32 n ss h = Inr (cols, h'))"
proof -
  from assms obtain cols g' where m: "make_cols np f32 n ss g = Inr (cols, g')"
    and e1: "e1 = (EpsilonMatrix0 n ss)\<lparr>eps := Some cols\<rparr>"
    by (auto simp: getitem0_def make_eps_def EpsilonMatrix0_def bindE_eq_Inr split: if_splits)
  from make_cols_det[OF m] e1 show ?thesis
    by (auto simp: EpsilonMatrix0_def)
qed

text \<open>
  C4: after its first read an EpsilonMatrix0 returns at every index what a source newly
  built from the same number of assets and the same seeds returns there (the same value or
  the same error), whatever the state of the global generator is at either read; in
  particular a repeated read of the index of the first read returns the same value and
  leaves the object as it is. Two EpsilonMatrix1 built from the same number of events and
  the same seed are equal, whatever the state of the global generator was, and their reads
  do not change them.
\<close>

theorem C4_epsilon_determinism:
  "(getitem0 np f32 (EpsilonMatrix0 n ss) g item1 = Inr (v1, e1, g1) \<longrightarrow>
      (\<forall>item h h2. map_sum id fst (getitem0 np f32 e1 h item)
                     = map_sum id fst (getitem0 np f32 (EpsilonMatrix0 n ss) h2 item))
      \<and> (\<forall>h. \<exists>h'. getitem0 np f32 e1 h item1 = Inr (v1, e1, h')))
   \<and> (EpsilonMatrix1 np m s g = Inr (c1, g1') \<longrightarrow>
      (\<forall>h. \<exists>h'. EpsilonMatrix1 np m s h = Inr (c1, h'))
      \<and> (\<forall>h c2 h' item. EpsilonMatrix1 np m s h = Inr (c2, h') \<longrightarrow>
             getitem1 c2 item = getitem1 c1 item))"
proof (intro conjI impI allI)
  fix item h h2
  assume a: "getitem0 np f32 (EpsilonMatrix0 n ss) g item1 = Inr (v1, e1, g1)"
  from getitem0_after_read[OF a] obtain cols where c: "eps e1 = Some cols" "num_assets e1 = n"
    "seeds e1 = ss" "\<forall>h. \<exists>h'. make_cols np f32 n ss h = Inr (cols, h')"
    by blast
  from c(4) obtain h' where h': "make_cols np f32 n ss h2 = Inr (cols, h')" by blast
  show "map_sum id fst (getitem0 np f32 e1 h item)
          = map_sum id fst (getitem0 np f32 (EpsilonMatrix0 n ss) h2 item)"
    using c(1-3) h' by (simp add: getitem0_def make_eps_def EpsilonMatrix0_def)
next
  fix h
  assume a: "getitem0 np f32 (EpsilonMatrix0 n ss) g item1 = Inr (v1, e1, g1)"
  from getitem0_after_read[OF a] obtain cols where c: "eps e1 = Some cols" "num_assets e1 = n"
    "seeds e1 = ss" "\<forall>h. \<exists>h'. make_cols np f32 n ss h = Inr (cols, h')"
    by blast
  from c(4) obtain g' where m: "make_cols np f32 n ss g = Inr (cols, g')" by blast
  from a m have "fst item1 < n \<and> snd item1 < length ss \<and> v1 = cols ! snd item1 ! fst item1"
    by (auto simp: getitem0_def make_eps_def EpsilonMatrix0_def split: if_splits)
  with c(1-3) show "\<exists>h'. getitem0 np f32 e1 h item1 = Inr (v1, e1, h')"
    by (simp add: getitem0_def)
next
  fix h
  assume "EpsilonMatrix1 np m s g = Inr (c1, g1')"
  then show "\<exists>h'. EpsilonMatrix1 np m s h = Inr (c1, h')"
    by (auto simp: EpsilonMatrix1_def bindE_eq_Inr Let_def)
next
  fix h c2 h' item
  assume "EpsilonMatrix1 np m s g = Inr (c1, g1')" "EpsilonMatrix1 np m s h = Inr (c2, h')"
  then have "c2 = c1"
    by (auto simp: EpsilonMatrix1_def bindE_eq_Inr Let_def)
  then show "getitem1 c2 item = getitem1 c1 item" by simp
qed

theorem C4_epsilon_determinism_witness:
  "getitem0 counter_rng (\<lambda>x. x) (EpsilonMatrix0 2 [5, 9]) 0 (1, 1) = Inr (10, eps0_read, 11)
   \<and> EpsilonMatrix1 counter_rng 3 7 0 = Inr (eps1_made, 10)
   \<and> map_sum id fst (getitem0 counter_rng (\<lambda>x. x) eps0_read 77 (0, 1))
       = map_sum id fst (getitem0 counter_rng (\<lambda>x. x) (EpsilonMatrix0 2 [5, 9]) 33 (0, 1))
   \<and> (\<exists>h'. getitem0 counter_rng (\<lambda>x. x) eps0_read 77 (1, 1) = Inr (10, eps0_read, h'))
   \<and> (\<exists>h'. EpsilonMatrix1 counter_rng 3 7 55 = Inr (eps1_made, h'))
   \<and> getitem1 eps1_made (0, 1) = Inr 8"
proof -
  have a: "getitem0 counter_rng (\<lambda>x. x) (EpsilonMatrix0 2 [5, 9]) 0 (1, 1) = Inr (10, eps0_read, 11)"
    by code_simp
  have b: "EpsilonMatrix1 counter_rng 3 7 0 = Inr (eps1_made, 10)"
    by code_simp
  have c: "getitem1 eps1_made (0, 1) = Inr 8"
    by (simp add: getitem1_def eps1_made_def nth_err_def)
  from C4_epsilon_determinism [of counter_rng "\<lambda>x. x" 2 "[5, 9]" 0 "(1, 1)" 10 eps0_read 11 3 7 eps1_made 10]
    a b c
  show ?thesis by blast
qed

subsection \<open>C5: the seed ranges of the risk inputs\<close>

lemma distinct_concat_nth_disjoint:
  "distinct (concat xss) \<Longrightarrow> i < j \<Longrightarrow> j < length xss \<Longrightarrow> set (xss ! i) \<inter> set (xss ! j) = {}"
proof (induction xss arbitrary: i j)
  case Nil
  then show ?case by simp
next
  case (Cons xs xss)
  show ?case
  proof (cases i)
    case 0
    with Cons.prems obtain j' where j': "j = Suc j'" "j' < length xss"
      by (cases j) auto
    then have "xss ! j' \<in> set xss" by simp
    then have "set (xss ! j') \<subseteq> \<Union> (set ` set xss)" by blast
    with Cons.prems(1) 0 j' show ?thesis by auto
  next
    case (Suc i')
    with Cons.prems obtain j' where "j = Suc j'" "i' < j'" "j' < length xss"
      by (cases j) auto
    with Cons.IH[of i' j'] Cons.prems(1) Suc show ?thesis by simp
  qed
qed

lemma distinct_all_seeds: "distinct (all_seeds oq rbg)"
  by (simp add: all_seeds_def distinct_map inj_on_def)

lemma block_step_inv:
  assumes "concat (map seeds_of (fst st)) = take (snd st) (all_seeds oq rbg)"
  shows "concat (map seeds_of (fst (block_step oq covs A rbg grp_id rupts st)))
           = take (snd (block_step oq covs A rbg grp_id rupts st)) (all_seeds oq rbg)"
  using assms
  by (cases st) (simp add: block_step_def seeds_of_def Let_def take_add)

lemma fold_block_step_inv:
  assumes "concat (map seeds_of (fst st)) = take (snd st) (all_seeds oq rbg)"
  shows "concat (map seeds_of (fst (fold (block_step oq covs A rbg grp_id) blocks st)))
           = take (snd (fold (block_step oq covs A rbg grp_id) blocks st)) (all_seeds oq rbg)"
  using assms
  by (induction blocks arbitrary: st) (simp_all add: block_step_inv)

lemma fold_groups_inv:
  assumes "concat (map seeds_of (fst st)) = take (snd st) (all_seeds oq rbg)"
  shows "concat (map seeds_of (fst (fold (\<lambda>grp_id st.
                  fold (block_step oq covs A rbg grp_id) (blocks_of grp_id) st) grp_ids st)))
           = take (snd (fold (\<lambda>grp_id st.
                  fold (block_step oq covs A rbg grp_id) (blocks_of grp_id) st) grp_ids st))
               (all_seeds oq rbg)"
  using assms
  by (induction grp_ids arbitrary: st) (simp_all add: fold_block_step_inv)

lemma build_starmap_prefix:
  "\<exists>k. concat (map seeds_of (build_starmap bs oq covs A rbg grp_ids)) = take k (all_seeds oq rbg)"
  unfolding build_starmap_def
  by (rule exI, rule fold_groups_inv) simp

text \<open>
  C5, as stated, fails: in a run with two source models the offset restarts at zero for
  the second one, so its first block gets the first seed again (42 below), which the first
  block of the first source model already has.
\<close>

theorem C5_seed_ranges_overlap_counterexample:
  "map seeds_of (run_risk_inputs split1 oq1 True 3
       [(0, [rup 0 2, rup 1 1]), (1, [rup 2 1])] [[0], [1]]) = [[42, 43], [44], [42]]
   \<and> set [42, 43 :: int] \<inter> set [42] \<noteq> {}"
  by code_simp

text \<open>
  C5, amended: among the risk inputs of one call of build\_starmap (one source model) the
  seed lists of the independent epsilon sources are pairwise disjoint: put one after the
  other, in the order of dispatch, they are an initial piece of the seed array
  \<open>random_seed + arange(num_events)\<close>, cut by the running offset.
\<close>

theorem C5_seed_ranges_disjoint_per_source_model:
  "(\<forall>i j. i < j \<and> j < length (build_starmap bs oq covs A rbg grp_ids) \<longrightarrow>
      set (seeds_of (build_starmap bs oq covs A rbg grp_ids ! i))
        \<inter> set (seeds_of (build_starmap bs oq covs A rbg grp_ids ! j)) = {})
   \<and> (\<exists>k. concat (map seeds_of (build_starmap bs oq covs A rbg grp_ids))
            = take k (all_seeds oq rbg))"
proof -
  let ?ris = "build_starmap bs oq covs A rbg grp_ids"
  from build_starmap_prefix[of bs oq covs A rbg grp_ids]
  obtain k where k: "concat (map seeds_of ?ris) = take k (all_seeds oq rbg)" by blast
  have d: "distinct (concat (map seeds_of ?ris))"
    unfolding k by (rule distinct_take[OF distinct_all_seeds])
  have "set (seeds_of (?ris ! i)) \<inter> set (seeds_of (?ris ! j)) = {}"
    if "i < j" "j < length ?ris" for i j
    using distinct_concat_nth_disjoint[OF d, of i j] that by simp
  with k show ?thesis by blast
qed

theorem C5_seed_ranges_disjoint_per_source_model_witness:
  "map seeds_of (build_starmap split1 oq1 True 3 [(0, [rup 0 2, rup 1 1]), (1, [rup 2 1])] [0, 1])
     = [[42, 43], [44], [45]]
   \<and> (0 :: nat) < 2
   \<and> 2 < length (build_starmap split1 oq1 True 3 [(0, [rup 0 2, rup 1 1]), (1, [rup 2 1])] [0, 1])
   \<and> set (seeds_of (build_starmap split1 oq1 True 3 [(0, [rup 0 2, rup 1 1]), (1, [rup 2 1])] [0, 1] ! 0))
       \<inter> set (seeds_of (build_starmap split1 oq1 True 3 [(0, [rup 0 2, rup 1 1]), (1, [rup 2 1])] [0, 1] ! 2)) = {}"
proof -
  have a: "map seeds_of (build_starmap split1 oq1 True 3 [(0, [rup 0 2, rup 1 1]), (1, [rup 2 1])] [0, 1])
     = [[42, 43], [44], [45]]"
    by code_simp
  have b: "(0 :: nat) < 2
    \<and> 2 < length (build_starmap split1 oq1 True 3 [(0, [rup 0 2, rup 1 1]), (1, [rup 2 1])] [0, 1])"
    using arg_cong[OF a, of length] by simp
  from C5_seed_ranges_disjoint_per_source_model
     [of split1 oq1 True 3 "[(0, [rup 0 2, rup 1 1]), (1, [rup 2 1])]" "[0, 1]"] a b
  show ?thesis by blast
qed

subsection \<open>Facts about build\_agg\_curve\<close>

lemma agg_curve_step_empty [simp]:
  "agg_curve_step eb al ins sr C (l, r, []) result = Inr result"
  by (simp add: agg_curve_step_def)

lemma foldE_filter_skip:
  assumes "\<And>x s. \<not> P x \<Longrightarrow> f x s = Inr s"
  shows "foldE f (filter P xs) s = foldE f xs s"
proof (induction xs arbitrary: s)
  case Nil
  show ?case by simp
next
  case (Cons x xs)
  have e: "foldE f (filter P xs) = foldE f xs"
    by (rule ext) (rule Cons.IH)
  show ?case by (simp add: e assms)
qed

lemma build_agg_curve_skips_empty:
  "build_agg_curve eb al (filter (\<lambda>(l, r, data). data \<noteq> []) lr_data) ins sr C
     = build_agg_curve eb al lr_data ins sr C"
  unfolding build_agg_curve_def
  by (rule foldE_filter_skip) (auto simp: agg_curve_step_def)

lemma agg_curve_step_keys:
  assumes "agg_curve_step eb al ins sr C (l, r, data) result = Inr result'"
    and "map_of result' (l', r', name) \<noteq> None"
  shows "map_of result (l', r', name) \<noteq> None \<or> (l' = l \<and> r' = r \<and> data \<noteq> [])"
  using assms
  by (auto simp: agg_curve_step_def bindE_eq_Inr update_conv' split: if_splits)

subsection \<open>Facts about the post calculator\<close>

lemma foldE_invariant:
  assumes step: "\<And>x s s'. P s \<Longrightarrow> f x s = Inr s' \<Longrightarrow> P s'"
    and "P s" and "foldE f xs s = Inr s'"
  shows "P s'"
  using assms(2,3)
proof (induction xs arbitrary: s)
  case Nil
  then show ?case by simp
next
  case (Cons x xs)
  from Cons.prems(2) obtain s1 where s1: "f x s = Inr s1" "foldE f xs s1 = Inr s'"
    by (auto simp: bindE_eq_Inr)
  from step[OF Cons.prems(1) s1(1)] have "P s1" .
  with Cons.IH[of s1] s1(2) show ?case by simp
qed

lemma assign_cells_cols:
  assumes "nd_shape v ! 1 = 1" and "\<forall>lt a r. cells lt a r (1 :: nat) = cells lt a r 0"
  shows "assign_cells v lt kaids r 2 C cells lt0 a0 r0 1
           = assign_cells v lt kaids r 2 C cells lt0 a0 r0 0"
  using assms(2)
proof (induction kaids arbitrary: cells)
  case Nil
  then show ?case by (simp add: assign_cells_def)
next
  case (Cons ka kaids)
  obtain k aid where ka: "ka = (k, aid)" by (cases ka)
  let ?cells = "\<lambda>lt' a' r' i.
                if lt' = lt \<and> a' = aid \<and> r' = r \<and> i < (2 :: nat)
                then map (\<lambda>j. nd_get3 v (bcast (nd_shape v ! 0) k) (bcast (nd_shape v ! 1) i)
                                (bcast (nd_shape v ! 2) j)) [0..<C]
                else cells lt' a' r' i"
  have e: "assign_cells v lt (ka # kaids) r 2 C cells = assign_cells v lt kaids r 2 C ?cells"
    by (simp add: assign_cells_def ka)
  have "\<forall>lt a r. ?cells lt a r 1 = ?cells lt a r 0"
    using Cons.prems assms(1) by (simp add: bcast_def)
  from Cons.IH[OF this] show ?case
    unfolding e .
qed

lemma rcurves_assign_frame:
  assumes "rcurves_assign rc lt aids r v = Inr rc'"
  shows "rc_shape rc' = rc_shape rc \<and> rc_fields rc' = rc_fields rc"
  using assms
  by (auto simp: rcurves_assign_def split: option.splits prod.splits list.splits if_splits)

lemma rcurves_assign_cols:
  assumes "rcurves_assign rc lt aids r v = Inr rc'"
    and "nd_shape v ! 1 = 1" and "snd (snd (rc_shape rc)) = 2" and "cols_equal rc"
  shows "cols_equal rc'"
proof -
  from assms(1,3) obtain C where
    rc': "rc' = rc\<lparr>rc_cells := assign_cells v lt (enumerate 0 aids) r 2 C (rc_cells rc)\<rparr>"
    by (auto simp: rcurves_assign_def split: option.splits prod.splits list.splits if_splits)
  from assms(4) have c: "\<forall>lt a r. rc_cells rc lt a r 1 = rc_cells rc lt a r 0"
    by (simp add: cols_equal_def)
  show ?thesis
    unfolding cols_equal_def rc'
    using assign_cells_cols[OF assms(2) c] by simp
qed

lemma rcurves_step_inv:
  assumes "rcurves_step x cfg tbl I r cb rc = Inr rc'"
  shows "rc_shape rc' = rc_shape rc \<and> rc_fields rc' = rc_fields rc
       \<and> (I = 1 \<and> snd (snd (rc_shape rc)) = 2 \<and> cols_equal rc \<longrightarrow> cols_equal rc')"
proof (cases "rc' = rc")
  case True
  then show ?thesis by simp
next
  case False
  with assms obtain data aids curves A L rest v where
    "nd_shape curves = A # L # rest" "reshape3 curves A I L = Inr v"
    and as: "rcurves_assign rc (cb_loss_type cb) aids r v = Inr rc'"
    by (auto simp: rcurves_step_def bindE_eq_Inr split: option.splits if_splits list.splits)
  then have v: "nd_shape v = [A, I, L]"
    by (auto simp: reshape3_def split: if_splits)
  from rcurves_assign_frame[OF as] rcurves_assign_cols[OF as] v
  show ?thesis by auto
qed

lemma save_rcurves_inv:
  assumes "save_rcurves x cfg rc I ps = Inr ps'"
  shows "\<exists>rc'. ps_rcurves ps' = Some rc' \<and> rc_shape rc' = rc_shape rc \<and> rc_fields rc' = rc_fields rc
           \<and> (I = 1 \<and> snd (snd (rc_shape rc)) = 2 \<and> cols_equal rc \<longrightarrow> cols_equal rc')"
proof -
  let ?P = "\<lambda>rc'. rc_shape rc' = rc_shape rc \<and> rc_fields rc' = rc_fields rc
       \<and> (I = 1 \<and> snd (snd (rc_shape rc)) = 2 \<and> cols_equal rc \<longrightarrow> cols_equal rc')"
  from assms obtain rc' where
    f: "foldE (\<lambda>r. foldE (rcurves_step x cfg (ps_ass_loss_ratios ps) I r) (pc_curve_builders cfg))
          (sort (remdups (map (fst \<circ> fst) (ps_ass_loss_ratios ps)))) rc = Inr rc'"
    and ps': "ps' = ps\<lparr>ps_rcurves := Some rc'\<rparr>"
    by (auto simp: save_rcurves_def bindE_eq_Inr split: if_splits)
  have inner: "?P s'" if "?P s"
    "foldE (rcurves_step x cfg (ps_ass_loss_ratios ps) I r) (pc_curve_builders cfg) s = Inr s'" for r s s'
  proof (rule foldE_invariant[where P = ?P, OF _ that(1) that(2)])
    fix cb t t'
    assume "?P t" "rcurves_step x cfg (ps_ass_loss_ratios ps) I r cb t = Inr t'"
    with rcurves_step_inv[of x cfg "ps_ass_loss_ratios ps" I r cb t t'] show "?P t'"
      by auto
  qed
  have "?P rc'"
  proof (rule foldE_invariant[where P = ?P and s = rc, OF _ _ f])
    fix r s s'
    assume "?P s"
      "foldE (rcurves_step x cfg (ps_ass_loss_ratios ps) I r) (pc_curve_builders cfg) s = Inr s'"
    then show "?P s'" by (rule inner)
  next
    show "?P rc" by simp
  qed
  with ps' show ?thesis by simp
qed

lemma rcurves_zeros_inv:
  "rc_shape (rcurves_zeros A R lts cbs) = (A, R, 2) \<and> cols_equal (rcurves_zeros A R lts cbs)"
  by (simp add: rcurves_zeros_def cols_equal_def Let_def)

lemma save_loss_maps_rcurves:
  "save_loss_maps x cfg ps = Inr ps' \<Longrightarrow> ps_rcurves ps' = ps_rcurves ps"
  by (auto simp: save_loss_maps_def bindE_eq_Inr split: option.splits if_splits)

lemma save_agg_curve_frame:
  "save_agg_curve x cfg ps = Inr ps' \<Longrightarrow>
     ps_rcurves ps' = ps_rcurves ps \<and> ps_loss_curves_stats ps' = ps_loss_curves_stats ps
     \<and> ps_loss_maps_stats ps' = ps_loss_maps_stats ps"
  by (auto simp: save_agg_curve_def bindE_eq_Inr split: if_splits)

lemma compute_store_stats_rcurves:
  "compute_store_stats x cfg rlzs builder ps = Inr ps' \<Longrightarrow> ps_rcurves ps' = ps_rcurves ps"
  by (auto simp: compute_store_stats_def bindE_eq_Inr Let_def split: if_splits)

lemma build_stats_rcurves:
  assumes "build_stats x cfg ps = Inr ps'"
  shows "ps_rcurves ps' = ps_rcurves ps"
proof -
  from assms obtain builder ps1 where
    a: "ps1 = ps \<or> save_agg_curve x cfg ps = Inr ps1"
    and b: "ps' = ps1 \<or> compute_store_stats x cfg (pc_realizations cfg) builder ps1 = Inr ps'"
    by (auto simp: build_stats_def bindE_eq_Inr Let_def split: option.splits if_splits)
  from a have "ps_rcurves ps1 = ps_rcurves ps"
    by (auto dest: save_agg_curve_frame)
  moreover from b have "ps_rcurves ps' = ps_rcurves ps1"
    by (auto dest: compute_store_stats_rcurves)
  ultimately show ?thesis by simp
qed

lemma build_agg_curve_keys:
  assumes "foldE (agg_curve_step eb al ins sr C) lr_data result = Inr result'"
    and "map_of result' (l, r, name) \<noteq> None"
  shows "map_of result (l, r, name) \<noteq> None \<or> (\<exists>data. (l, r, data) \<in> set lr_data \<and> data \<noteq> [])"
  using assms
proof (induction lr_data arbitrary: result)
  case Nil
  then show ?case by simp
next
  case (Cons x xs)
  obtain l0 r0 d0 where x: "x = (l0, r0, d0)" by (cases x)
  from Cons.prems(1) obtain r1 where
    s1: "agg_curve_step eb al ins sr C (l0, r0, d0) result = Inr r1" and
    s2: "foldE (agg_curve_step eb al ins sr C) xs r1 = Inr result'"
    by (auto simp: bindE_eq_Inr x)
  from Cons.IH[OF s2 Cons.prems(2)]
  show ?case
  proof
    assume "map_of r1 (l, r, name) \<noteq> None"
    from agg_curve_step_keys[OF s1 this] show ?thesis
      unfolding x by auto
  next
    assume "\<exists>data. (l, r, data) \<in> set xs \<and> data \<noteq> []"
    then show ?thesis by auto
  qed
qed

lemma rcurves_step_missing:
  "map_of tbl (r, cb_loss_type cb) = None \<Longrightarrow> rcurves_step x cfg tbl I r cb rc = Inr rc"
  by (simp add: rcurves_step_def)

subsection \<open>C9: empty results are skipped\<close>

text \<open>
  C9: \<open>build_agg_curve\<close> skips every triple without data: it gives the same result, error or
  dictionary, as on the list without these triples; a pair (loss type, realization) all of
  whose data are empty has no entry in the result, and when all data are empty the result
  is the empty dictionary. In \<open>save_rcurves\<close> a pair (realization, curve builder) whose
  dataset is missing leaves \<open>rcurves\<close> as it is, and the loop over the curve builders gives
  what it gives without these pairs.
\<close>

theorem C9_empty_results_are_skipped:
  "build_agg_curve eb al (filter (\<lambda>(l, r, data). data \<noteq> []) lr_data) ins sr C
     = build_agg_curve eb al lr_data ins sr C
   \<and> ((\<forall>data. (l, r, data) \<in> set lr_data \<longrightarrow> data = [])
        \<and> build_agg_curve eb al lr_data ins sr C = Inr result
       \<longrightarrow> (\<forall>name. map_of result (l, r, name) = None))
   \<and> ((\<forall>lrd \<in> set lr_data. snd (snd lrd) = []) \<longrightarrow> build_agg_curve eb al lr_data ins sr C = Inr [])
   \<and> (map_of tbl (rz, cb_loss_type cb) = None \<longrightarrow> rcurves_step x cfg tbl I rz cb rc = Inr rc)
   \<and> foldE (rcurves_step x cfg tbl I rz) (filter (\<lambda>cb. map_of tbl (rz, cb_loss_type cb) \<noteq> None) cbs) rc
       = foldE (rcurves_step x cfg tbl I rz) cbs rc"
proof (intro conjI impI allI)
  show "build_agg_curve eb al (filter (\<lambda>(l, r, data). data \<noteq> []) lr_data) ins sr C
     = build_agg_curve eb al lr_data ins sr C"
    by (rule build_agg_curve_skips_empty)
next
  fix name
  assume a: "(\<forall>data. (l, r, data) \<in> set lr_data \<longrightarrow> data = [])
     \<and> build_agg_curve eb al lr_data ins sr C = Inr result"
  show "map_of result (l, r, name) = None"
  proof (rule ccontr)
    assume "map_of result (l, r, name) \<noteq> None"
    with a build_agg_curve_keys[of eb al ins sr C lr_data "[]" result l r name]
    show False by (auto simp: build_agg_curve_def)
  qed
next
  assume a: "\<forall>lrd \<in> set lr_data. snd (snd lrd) = []"
  then have "filter (\<lambda>(l, r, data). data \<noteq> []) lr_data = []"
    by (auto simp: filter_empty_conv)
  with build_agg_curve_skips_empty[of eb al lr_data ins sr C]
  show "build_agg_curve eb al lr_data ins sr C = Inr []"
    by (simp add: build_agg_curve_def)
next
  assume "map_of tbl (rz, cb_loss_type cb) = None"
  then show "rcurves_step x cfg tbl I rz cb rc = Inr rc"
    by (rule rcurves_step_missing)
next
  show "foldE (rcurves_step x cfg tbl I rz) (filter (\<lambda>cb. map_of tbl (rz, cb_loss_type cb) \<noteq> None) cbs) rc
       = foldE (rcurves_step x cfg tbl I rz) cbs rc"
    by (rule foldE_filter_skip) (simp add: rcurves_step_missing)
qed

theorem C9_empty_results_are_skipped_witness:
  "build_agg_curve curve1 avg1 lr_data1 False 1 2 = Inr agg_result1
   \<and> map_of agg_result1 (0, 0, ''losses'') = None
   \<and> build_agg_curve curve1 avg1 [(0, 0, [])] False 1 2 = Inr []
   \<and> map_of (ps_ass_loss_ratios ps1) (1, cb_loss_type cb1) = None
   \<and> rcurves_step ext1 cfg1 (ps_ass_loss_ratios ps1) 1 1 cb1 (rcurves_zeros 1 2 [''structural''] [cb1])
       = Inr (rcurves_zeros 1 2 [''structural''] [cb1])"
proof -
  have a: "build_agg_curve curve1 avg1 lr_data1 False 1 2 = Inr agg_result1"
    by code_simp
  have b: "\<forall>data. (0, 0, data) \<in> set lr_data1 \<longrightarrow> data = []"
    by (simp add: lr_data1_def)
  have c: "\<forall>lrd \<in> set [(0 :: nat, 0 :: nat, [] :: elt_rec list)]. snd (snd lrd) = []"
    by simp
  have d: "map_of (ps_ass_loss_ratios ps1) (1, cb_loss_type cb1) = None"
    by (simp add: ps1_def cb1_def)
  from C9_empty_results_are_skipped [of curve1 avg1 lr_data1 False 1 2 0 0 agg_result1
      "ps_ass_loss_ratios ps1" 1 cb1 ext1 cfg1 1 "rcurves_zeros 1 2 [''structural''] [cb1]" "[]"] a b d
  have 1: "map_of agg_result1 (0, 0, ''losses'') = None"
    and 2: "rcurves_step ext1 cfg1 (ps_ass_loss_ratios ps1) 1 1 cb1 (rcurves_zeros 1 2 [''structural''] [cb1])
       = Inr (rcurves_zeros 1 2 [''structural''] [cb1])"
    by blast+
  from C9_empty_results_are_skipped [of curve1 avg1 "[(0, 0, [])]" False 1 2] c
  have 3: "build_agg_curve curve1 avg1 [(0, 0, [])] False 1 2 = Inr []"
    by blast
  from a 1 2 3 d show ?thesis by (intro conjI)
qed

subsection \<open>C8: statistics and the number of realizations\<close>





subsection \<open>C10: the insured dimension of rcurves-rlzs\<close>

text \<open>
  C10, as stated, fails in its parenthesis: without insured losses (I = 1) the curves are
  reshaped to (A, 1, L) and the assignment broadcasts them over the two columns, so the
  second column of an asset with a curve holds the curve, not zeros.
\<close>

theorem C10_insured_column_not_zero_counterexample:
  "pc_insured_losses cfg1 = False
   \<and> map_option rc_shape (persisted_rcurves (execute ext1 cfg1 ps1)) = Some (1, 1, 2)
   \<and> persisted_cell (execute ext1 cfg1 ps1) ''structural'' 0 0 0 = Some [3 / 4, 1 / 4]
   \<and> persisted_cell (execute ext1 cfg1 ps1) ''structural'' 0 0 1 = Some [3 / 4, 1 / 4]"
  by code_simp

text \<open>
  C10, amended: whenever the post calculator persists \<open>rcurves-rlzs\<close> (the loss ratios are
  requested and the run succeeds), the array has the shape (A, R, 2) whatever the insured
  losses flag is; the curves written into it are reshaped to (A, I, L), and for I = 1 the
  second column always equals the first one (zero only where no curve was written).
\<close>

theorem C10_rcurves_two_columns:
  assumes "execute x cfg ps = Inr ps'" and "pc_loss_ratios cfg"
  shows "\<exists>rc. ps_rcurves ps' = Some rc
           \<and> rc_shape rc = (length (pc_assets cfg), length (pc_realizations cfg), 2)
           \<and> (\<not> pc_insured_losses cfg \<longrightarrow> (\<forall>lt a r. rc_cells rc lt a r 1 = rc_cells rc lt a r 0))"
proof -
  let ?rc0 = "rcurves_zeros (length (pc_assets cfg)) (length (pc_realizations cfg))
                (pc_loss_types cfg) (pc_curve_builders cfg)"
  let ?I = "if pc_insured_losses cfg then 2 else 1 :: nat"
  from assms obtain ps1 ps2 where
    s1: "save_rcurves x cfg ?rc0 ?I ps = Inr ps1"
    and s2: "ps2 = ps1 \<or> save_loss_maps x cfg ps1 = Inr ps2"
    and s3: "build_stats x cfg ps2 = Inr ps'"
    by (auto simp: execute_def Let_def bindE_eq_Inr split: if_splits)
  from save_rcurves_inv[OF s1] obtain rc where
    rc: "ps_rcurves ps1 = Some rc" "rc_shape rc = rc_shape ?rc0"
    "?I = 1 \<and> snd (snd (rc_shape ?rc0)) = 2 \<and> cols_equal ?rc0 \<longrightarrow> cols_equal rc"
    by blast
  from s2 have "ps_rcurves ps2 = ps_rcurves ps1"
    by (auto dest: save_loss_maps_rcurves)
  with build_stats_rcurves[OF s3] rc(1) have p: "ps_rcurves ps' = Some rc" by simp
  from rc(2) have sh: "rc_shape rc = (length (pc_assets cfg), length (pc_realizations cfg), 2)"
    by (simp add: rcurves_zeros_inv)
  have "cols_equal rc" if "\<not> pc_insured_losses cfg"
    using rc(3) that by (simp add: rcurves_zeros_inv)
  then have "\<not> pc_insured_losses cfg \<longrightarrow> (\<forall>lt a r. rc_cells rc lt a r 1 = rc_cells rc lt a r 0)"
    by (simp add: cols_equal_def)
  with p sh show ?thesis by blast
qed

theorem C10_rcurves_two_columns_witness:
  "pc_loss_ratios cfg1 \<and> \<not> pc_insured_losses cfg1 \<and> \<not> isl (execute ext1 cfg1 ps1)
   \<and> (\<exists>rc. persisted_rcurves (execute ext1 cfg1 ps1) = Some rc
          \<and> rc_shape rc = (length (pc_assets cfg1), length (pc_realizations cfg1), 2)
          \<and> rc_cells rc ''structural'' 0 0 1 = rc_cells rc ''structural'' 0 0 0)"
proof -
  have a: "pc_loss_ratios cfg1" "\<not> pc_insured_losses cfg1"
    by (simp_all add: cfg1_def)
  have i: "\<not> isl (execute ext1 cfg1 ps1)"
    by code_simp
  then obtain ps' where b: "execute ext1 cfg1 ps1 = Inr ps'"
    by (cases "execute ext1 cfg1 ps1") auto
  from C10_rcurves_two_columns [OF b a(1)] a(2) obtain rc where
    "ps_rcurves ps' = Some rc"
    "rc_shape rc = (length (pc_assets cfg1), length (pc_realizations cfg1), 2)"
    "rc_cells rc ''structural'' 0 0 1 = rc_cells rc ''structural'' 0 0 0"
    by blast
  with a i b show ?thesis
    by (simp add: persisted_rcurves_def)
qed

subsection \<open>Facts about save\_results\<close>

lemma d_shape_col_store [simp]: "d_shape (col_store fadd c k v d) = d_shape d"
  by (simp add: col_store_def)




















subsection \<open>C3: the order of the task results\<close>




end
